theory Spec2Isabelle
  imports Complex_Main "HOL-Library.AList"
begin

section \<open>Python strings\<close>

text \<open>
  Python \<open>str\<close> values are modelled as \<open>string\<close> (lists of 8-bit characters), read
  as ASCII text.  The functions below are the \<open>str\<close> methods the sources call, with
  the results Python gives on ASCII input.
\<close>

text \<open>\<open>s.startswith(p)\<close>\<close>

fun startswith :: "string \<Rightarrow> string \<Rightarrow> bool" where
  "startswith s [] = True"
| "startswith [] (p # ps) = False"
| "startswith (c # cs) (p # ps) = (c = p \<and> startswith cs ps)"

text \<open>\<open>s.endswith(p)\<close>\<close>

definition endswith :: "string \<Rightarrow> string \<Rightarrow> bool" where
  "endswith s p = startswith (rev s) (rev p)"

text \<open>\<open>sub in s\<close>\<close>

fun contains :: "string \<Rightarrow> string \<Rightarrow> bool" where
  "contains sub [] = (sub = [])"
| "contains sub (c # cs) = (startswith (c # cs) sub \<or> contains sub cs)"

text \<open>
  \<open>s.replace(old, new)\<close>: the occurrences of \<open>old\<close> are replaced from the left,
  without overlap; an empty \<open>old\<close> matches before every character and at the end.
\<close>

function py_replace :: "string \<Rightarrow> string \<Rightarrow> string \<Rightarrow> string" where
  "py_replace old new s =
     (if old = [] then new @ concat (map (\<lambda>c. c # new) s)
      else if s = [] then []
      else if startswith s old then new @ py_replace old new (drop (length old) s)
      else hd s # py_replace old new (tl s))"
  by pat_completeness auto
termination
  by (relation "measure (\<lambda>(old, new, s). length s)") auto

declare py_replace.simps [simp del]

text \<open>\<open>c.isspace()\<close> on the code points below 256.\<close>

definition isspace :: "char \<Rightarrow> bool" where
  "isspace c = (let n = (of_char c :: nat) in
     (9 \<le> n \<and> n \<le> 13) \<or> (28 \<le> n \<and> n \<le> 32) \<or> n = 133 \<or> n = 160)"

text \<open>\<open>s.strip()\<close>\<close>

definition strip :: "string \<Rightarrow> string" where
  "strip s = rev (dropWhile isspace (rev (dropWhile isspace s)))"

text \<open>\<open>s.lower()\<close> on ASCII letters.\<close>

definition lower_char :: "char \<Rightarrow> char" where
  "lower_char c = (let n = (of_char c :: nat) in
     if 65 \<le> n \<and> n \<le> 90 then char_of (n + 32) else c)"

definition lower :: "string \<Rightarrow> string" where
  "lower s = map lower_char s"

text \<open>\<open>sep.join(xs)\<close>\<close>

fun join :: "string \<Rightarrow> string list \<Rightarrow> string" where
  "join sep [] = []"
| "join sep [x] = x"
| "join sep (x # y # ys) = x @ sep @ join sep (y # ys)"

text \<open>\<open>str(n)\<close> for an \<open>int\<close>.\<close>

definition digit_char :: "int \<Rightarrow> char" where
  "digit_char d = (if d = 0 then CHR ''0'' else if d = 1 then CHR ''1'' else if d = 2 then CHR ''2''
     else if d = 3 then CHR ''3'' else if d = 4 then CHR ''4'' else if d = 5 then CHR ''5''
     else if d = 6 then CHR ''6'' else if d = 7 then CHR ''7'' else if d = 8 then CHR ''8''
     else CHR ''9'')"

function str_digits :: "int \<Rightarrow> string" where
  "str_digits n = (if n < 10 then [digit_char n] else str_digits (n div 10) @ [digit_char (n mod 10)])"
  by pat_completeness auto
termination
  by (relation "measure nat") auto

declare str_digits.simps [simp del]

definition str_int :: "int \<Rightarrow> string" where
  "str_int i = (if i < 0 then CHR ''-'' # str_digits (- i) else str_digits i)"

text \<open>The line feed, and Python's truth value of an optional string (\<open>x or default\<close>).\<close>

definition NL :: string where
  "NL = [CHR 0x0A]"

definition str_or :: "string option \<Rightarrow> string \<Rightarrow> string" where
  "str_or x dflt = (case x of None \<Rightarrow> dflt | Some s \<Rightarrow> if s = [] then dflt else s)"

section \<open>Errors, effects and the program monad\<close>

text \<open>
  Every exception the modelled code raises or lets through is a value of \<open>error\<close>; the
  payload is the message (or, for \<open>CalledProcessError\<close>, the return code and the command).
\<close>

datatype error =
    PyException string
  | ConnectionError string
  | SSHException string
  | FileNotFoundError string
  | ValueError string
  | ValidationError string
  | JSONDecodeError string
  | AttributeError string
  | RuntimeError string
  | CalledProcessError int "string list"

text \<open>
  The observable effects, in the order they happen.  A program is a function from the
  trace so far to a result and the extended trace; the outside world (remote hosts,
  the provisioning tool) answers as a function of the trace so far.
\<close>

datatype action =
    Print string
  | Sleep nat
  | Connect string
  | Exec string string
  | Upload string string string
  | Mkdir string
  | WriteFile string string
  | Subprocess "string list" string "(string \<times> string) list"
  | KeyStore string

type_synonym 'a prog = "action list \<Rightarrow> (error + 'a) \<times> action list"

definition return :: "'a \<Rightarrow> 'a prog" where
  "return x tr = (Inr x, tr)"

definition raise :: "error \<Rightarrow> 'a prog" where
  "raise e tr = (Inl e, tr)"

definition bind :: "'a prog \<Rightarrow> ('a \<Rightarrow> 'b prog) \<Rightarrow> 'b prog" where
  "bind m f tr = (case m tr of (Inl e, tr') \<Rightarrow> (Inl e, tr') | (Inr x, tr') \<Rightarrow> f x tr')"

definition seq :: "'a prog \<Rightarrow> 'b prog \<Rightarrow> 'b prog" where
  "seq m k = bind m (\<lambda>_. k)"

text \<open>\<open>try: m  except Exception: h\<close>\<close>

definition try_except :: "'a prog \<Rightarrow> 'a prog \<Rightarrow> 'a prog" where
  "try_except m h tr = (case m tr of (Inl e, tr') \<Rightarrow> h tr' | (Inr x, tr') \<Rightarrow> (Inr x, tr'))"

definition emit :: "action \<Rightarrow> unit prog" where
  "emit a tr = (Inr (), tr @ [a])"

text \<open>A pure result (a value or a raised exception) as a program.\<close>

definition lift :: "error + 'a \<Rightarrow> 'a prog" where
  "lift r tr = (r, tr)"

section \<open>The server deployer (adapters/deployer.py)\<close>

text \<open>
  What an SSH command gives back: exit status, standard output and standard error.
\<close>

record response =
  exit_code :: int
  stdout :: string
  stderr :: string

text \<open>
  The remote side of a \<open>ServerDeployer\<close>: whether the transport is alive, whether a
  connection attempt succeeds, what a command answers and whether an SFTP write
  succeeds, each as a function of the trace so far.
\<close>

record remote =
  transport_active :: "action list \<Rightarrow> bool"
  connect_ok :: "action list \<Rightarrow> bool"
  exec_command :: "action list \<Rightarrow> string \<Rightarrow> error + response"
  sftp_write :: "action list \<Rightarrow> string \<Rightarrow> string \<Rightarrow> error option"

record deployer =
  ip :: string
  user :: string
  local_root :: "string option"
  client :: remote

text \<open>
  \<open>connect\<close>: up to ten attempts, five seconds of sleep after each failed one, then
  \<open>ConnectionError\<close>.
\<close>

fun connect_loop :: "deployer \<Rightarrow> nat \<Rightarrow> unit prog" where
  "connect_loop d 0 tr = (Inl (ConnectionError (''Could not connect to '' @ ip d)), tr)"
| "connect_loop d (Suc n) tr =
     (if connect_ok (client d) tr then (Inr (), tr @ [Connect (ip d)])
      else connect_loop d n (tr @ [Connect (ip d), Sleep 5]))"

definition connect :: "deployer \<Rightarrow> unit prog" where
  "connect d = connect_loop d 10"

definition ensure_transport :: "deployer \<Rightarrow> unit prog" where
  "ensure_transport d tr = (if transport_active (client d) tr then (Inr (), tr) else connect d tr)"

definition exec :: "deployer \<Rightarrow> string \<Rightarrow> response prog" where
  "exec d cmd tr = (exec_command (client d) tr cmd, tr @ [Exec (ip d) cmd])"

text \<open>The command as displayed: every non-empty entry of the \<open>mask\<close> argument (here \<open>secrets\<close>) replaced by \<open>***\<close>.\<close>

definition mask_cmd :: "string list option \<Rightarrow> string \<Rightarrow> string" where
  "mask_cmd secrets final_cmd =
     foldl (\<lambda>display_cmd m. if m \<noteq> [] then py_replace m ''***'' display_cmd else display_cmd)
       final_cmd (case secrets of None \<Rightarrow> [] | Some ms \<Rightarrow> ms)"

definition final_command :: "string \<Rightarrow> string option \<Rightarrow> string" where
  "final_command cmd cwd =
     (case cwd of None \<Rightarrow> cmd
      | Some dir \<Rightarrow> if dir = [] then cmd else ''cd '' @ dir @ '' && '' @ cmd)"

definition run :: "deployer \<Rightarrow> string \<Rightarrow> string option \<Rightarrow> string list option \<Rightarrow> string prog" where
  "run d cmd cwd secrets =
     seq (ensure_transport d)
       (let final_cmd = final_command cmd cwd;
            display_cmd = mask_cmd secrets final_cmd
        in seq (emit (Print (''['' @ ip d @ ''] Running: '' @ display_cmd)))
             (bind (exec d final_cmd) (\<lambda>r.
                let out = strip (stdout r); err = strip (stderr r)
                in if exit_code r \<noteq> 0
                   then raise (PyException (''Command failed: '' @ final_cmd @ NL @ ''Error: '' @ err))
                   else return out)))"

text \<open>\<open>upload_file\<close>: reconnect if needed, then write the file over SFTP.\<close>

definition upload_file :: "deployer \<Rightarrow> string \<Rightarrow> string \<Rightarrow> unit prog" where
  "upload_file d content remote_path =
     seq (ensure_transport d)
       (\<lambda>tr. case sftp_write (client d) tr remote_path content of
               Some e \<Rightarrow> (Inl e, tr)
             | None \<Rightarrow> (Inr (), tr @ [Upload (ip d) remote_path content]))"

subsection \<open>The application model (models.py)\<close>

datatype RuntimeType = DOCKER | NODEJS | PYTHON | STATIC | GO

record ServiceSpec =
  command :: string
  environment :: "(string \<times> string) list"
  environment_file :: "string option"
  environment_file_upload :: "string option"
  ports :: "int list"
  server_names :: "string list"
  https :: bool

record BuildSpec =
  install_command :: "string option"
  build_command :: "string option"
  system_packages :: "string list"

record ApplicationSpec =
  name :: string
  repo_url :: string
  branch :: string
  runtime :: RuntimeType
  build_config :: BuildSpec
  service_config :: ServiceSpec
  destination_path :: string

definition runtime_str :: "RuntimeType \<Rightarrow> string" where
  "runtime_str r = (case r of DOCKER \<Rightarrow> ''docker'' | NODEJS \<Rightarrow> ''nodejs'' | PYTHON \<Rightarrow> ''python''
     | STATIC \<Rightarrow> ''static'' | GO \<Rightarrow> ''go'')"

subsection \<open>Helpers of the deployer\<close>

text \<open>Truth value of an optional string, as in \<open>if x:\<close>.\<close>

definition truthy :: "string option \<Rightarrow> bool" where
  "truthy x = (case x of None \<Rightarrow> False | Some s \<Rightarrow> s \<noteq> [])"

definition normalize_server_names :: "string list \<Rightarrow> string list" where
  "normalize_server_names names0 =
     foldl (\<lambda>names n. let cleaned = strip n in
              if cleaned \<noteq> [] \<and> cleaned \<notin> set names then names @ [cleaned] else names)
       [] names0"

definition server_name_directive :: "string list \<Rightarrow> string" where
  "server_name_directive names = (if names \<noteq> [] then join '' '' names else ''_'')"

definition env_lines_from_map :: "(string \<times> string) list \<Rightarrow> string list" where
  "env_lines_from_map env_map = map (\<lambda>(k, v). k @ ''='' @ strip v) env_map"

text \<open>\<open>os.path.dirname\<close> and \<open>os.path.basename\<close> (POSIX).\<close>

definition dirname :: "string \<Rightarrow> string" where
  "dirname p =
     (let head = rev (dropWhile (\<lambda>c. c \<noteq> CHR ''/'') (rev p))
      in if head \<noteq> [] \<and> (\<exists>c \<in> set head. c \<noteq> CHR ''/'')
         then rev (dropWhile (\<lambda>c. c = CHR ''/'') (rev head)) else head)"

definition basename :: "string \<Rightarrow> string" where
  "basename p = rev (takeWhile (\<lambda>c. c \<noteq> CHR ''/'') (rev p))"

definition upload_env_content :: "deployer \<Rightarrow> string \<Rightarrow> string \<Rightarrow> unit prog" where
  "upload_env_content d content remote_path =
     (let remote_dir = dirname remote_path in
      seq (if remote_dir \<noteq> [] then seq (run d (''mkdir -p '' @ remote_dir) None None) (return ())
           else return ())
       (seq (upload_file d content remote_path)
         (seq (run d (''chmod 600 '' @ remote_path) None None) (return ()))))"

definition write_env_file :: "deployer \<Rightarrow> ApplicationSpec \<Rightarrow> string option prog" where
  "write_env_file d app =
     (let lines = env_lines_from_map (environment (service_config app)) in
      if lines = [] then return None
      else let target = ''/etc/cloudhand/env/'' @ name app @ ''.env'' in
           seq (upload_env_content d (join NL lines @ NL) target) (return (Some target)))"

definition parse_env_file_path :: "string \<Rightarrow> string \<Rightarrow> (string \<times> bool) option" where
  "parse_env_file_path raw_path app_dir =
     (let cleaned = strip raw_path in
      if cleaned = [] then None
      else let optional = startswith cleaned ''-'';
               cleaned' = (if optional then tl cleaned else cleaned);
               resolved = (if startswith cleaned' ''/'' then cleaned' else app_dir @ ''/'' @ cleaned')
           in Some (resolved, optional))"

definition resolve_env_file :: "string \<Rightarrow> string \<Rightarrow> string option" where
  "resolve_env_file raw_path app_dir =
     (case parse_env_file_path raw_path app_dir of
        None \<Rightarrow> None
      | Some (resolved, optional) \<Rightarrow> Some (if optional then ''-'' @ resolved else resolved))"

text \<open>
  The machine the deployer runs on: the process environment (\<open>os.getenv\<close>), how a
  local path resolves against \<open>local_root\<close> (\<open>_resolve_local_path\<close>, pathlib's
  \<open>expanduser\<close> and \<open>resolve\<close>) and the text of a local file (\<open>None\<close>: no such file).
\<close>

record localhost =
  getenv :: "string \<Rightarrow> string option"
  resolve_local_path :: "string option \<Rightarrow> string \<Rightarrow> string"
  read_text :: "string \<Rightarrow> string option"

definition env_file_directives :: "localhost \<Rightarrow> deployer \<Rightarrow> ApplicationSpec \<Rightarrow> string \<Rightarrow> string prog" where
  "env_file_directives h d app app_dir =
     (let sc = service_config app;
          finish = (\<lambda>env_files env_map_consumed.
            bind (if environment sc \<noteq> [] \<and> \<not> env_map_consumed
                  then bind (write_env_file d app) (\<lambda>generated.
                         return (case generated of None \<Rightarrow> env_files | Some g \<Rightarrow> env_files @ [g]))
                  else return env_files)
              (\<lambda>env_files'. return (if env_files' = [] then []
                 else join NL (map (\<lambda>path. ''EnvironmentFile='' @ path) env_files'))))
      in if truthy (environment_file_upload sc) then
           (let local_path = resolve_local_path h (local_root d) (the (environment_file_upload sc)) in
            case read_text h local_path of
              None \<Rightarrow> raise (FileNotFoundError (''Environment file not found at '' @ local_path))
            | Some content0 \<Rightarrow>
               (let content1 = (if endswith content0 NL then content0 else content0 @ NL);
                    extra_lines = env_lines_from_map (environment sc);
                    content2 = (if extra_lines \<noteq> [] then content1 @ join NL extra_lines @ NL else content1);
                    env_map_consumed = (extra_lines \<noteq> []);
                    target_raw = (if truthy (environment_file sc) then the (environment_file sc)
                                  else ''/etc/cloudhand/env/'' @ name app @ ''.env'')
                in case parse_env_file_path target_raw app_dir of
                     None \<Rightarrow> raise (ValueError ''environment_file_upload set but no target path resolved'')
                   | Some (target_path, optional) \<Rightarrow>
                       seq (upload_env_content d content2 target_path)
                         (finish [if optional then ''-'' @ target_path else target_path] env_map_consumed)))
         else if truthy (environment_file sc) then
           (case resolve_env_file (the (environment_file sc)) app_dir of
              None \<Rightarrow> finish [] False
            | Some resolved \<Rightarrow> finish [resolved] False)
         else finish [] False)"

definition systemd_unit :: "ApplicationSpec \<Rightarrow> string \<Rightarrow> string \<Rightarrow> string" where
  \<open>systemd_unit app app_dir env_str =
     ''[Unit]'' @ NL @
     ''Description='' @ name app @ NL @
     ''After=network.target'' @ NL @
     NL @
     ''[Service]'' @ NL @
     ''Type=simple'' @ NL @
     ''User=root'' @ NL @
     ''WorkingDirectory='' @ app_dir @ NL @
     ''ExecStart='' @ command (service_config app) @ NL @
     ''Restart=always'' @ NL @
     env_str @ NL @
     NL @
     ''[Install]'' @ NL @
     ''WantedBy=multi-user.target'' @ NL\<close>

definition configure_systemd :: "localhost \<Rightarrow> deployer \<Rightarrow> ApplicationSpec \<Rightarrow> string \<Rightarrow> unit prog" where
  "configure_systemd h d app app_dir =
     bind (env_file_directives h d app app_dir) (\<lambda>env_str.
       seq (upload_file d (systemd_unit app app_dir env_str)
              (''/etc/systemd/system/'' @ name app @ ''.service''))
        (seq (run d ''systemctl daemon-reload'' None None)
          (seq (run d (''systemctl enable '' @ name app) None None)
            (seq (run d (''systemctl restart '' @ name app) None None) (return ())))))"

definition apt_install :: "string \<Rightarrow> string" where
  "apt_install pkgs =
     ''DEBIAN_FRONTEND=noninteractive apt-get update && '' @
     ''DEBIAN_FRONTEND=noninteractive apt-get install -y '' @ pkgs"

definition enable_https :: "localhost \<Rightarrow> deployer \<Rightarrow> string list \<Rightarrow> unit prog" where
  "enable_https h d server_names0 =
     (let names = normalize_server_names server_names0 in
      if names = [] then
        emit (Print (''['' @ ip d @
          ''] HTTPS requested but no server_names configured; skipping certificate setup.''))
      else
        let domain_args = join '' '' (map (\<lambda>n. ''-d '' @ n) names) in
        bind (run d ''command -v certbox || command -v certbot || true'' None None) (\<lambda>found.
          bind (if strip found = []
                then seq (run d (apt_install ''certbot python3-certbot-nginx'') None None)
                       (return ''certbot'')
                else return (strip found)) (\<lambda>cert_cmd.
            if basename cert_cmd = ''certbot'' then
              (let email = str_or (getenv h ''CERTBOT_EMAIL'') (str_or (getenv h ''LETSENCRYPT_EMAIL'') []);
                   email_flag = (if email \<noteq> [] then ''--email '' @ email
                                 else ''--register-unsafely-without-email'')
               in seq (run d (cert_cmd @ '' --nginx '' @ domain_args @
                          '' --non-interactive --agree-tos '' @ email_flag @ '' --redirect'') None None)
                    (return ()))
            else
              seq (run d (cert_cmd @ '' --nginx '' @ domain_args @
                     '' --non-interactive --agree-tos --redirect '' @
                     ''--register-unsafely-without-email'') None None)
                (return ()))))"

subsection \<open>Reverse-proxy sites\<close>

definition nginx_site :: "string \<Rightarrow> int \<Rightarrow> string" where
  \<open>nginx_site server_name_line port =
     ''server {'' @ NL @
     ''    listen 80;'' @ NL @
     ''    server_name '' @ server_name_line @ '';'' @ NL @
     ''    location / {'' @ NL @
     ''        proxy_pass http://127.0.0.1:'' @ str_int port @ '';'' @ NL @
     ''        proxy_http_version 1.1;'' @ NL @
     ''        proxy_set_header Upgrade $http_upgrade;'' @ NL @
     ''        proxy_set_header Connection 'upgrade';'' @ NL @
     ''        proxy_set_header Host $host;'' @ NL @
     ''    }'' @ NL @
     ''}''\<close>

definition configure_nginx :: "localhost \<Rightarrow> deployer \<Rightarrow> ApplicationSpec \<Rightarrow> unit prog" where
  "configure_nginx h d app =
     (case ports (service_config app) of
        [] \<Rightarrow> return ()
      | port # _ \<Rightarrow>
         bind (run d ''command -v nginx || true'' None None) (\<lambda>nginx_bin.
         seq (if strip nginx_bin = [] then seq (run d (apt_install ''nginx'') None None) (return ())
              else return ())
         (seq (run d ''mkdir -p /etc/nginx/sites-available /etc/nginx/sites-enabled'' None None)
         (seq (run d ''systemctl enable nginx || true'' None None)
         (seq (run d ''systemctl start nginx || true'' None None)
         (let names = normalize_server_names (server_names (service_config app));
              conf = nginx_site (server_name_directive names) port
          in seq (upload_file d conf (''/etc/nginx/sites-available/'' @ name app))
            (seq (run d (''ln -sf /etc/nginx/sites-available/'' @ name app @
                          '' /etc/nginx/sites-enabled/'' @ name app) None None)
            (seq (run d ''rm -f /etc/nginx/sites-enabled/default'' None None)
            (seq (run d ''systemctl reload nginx'' None None)
            (if https (service_config app) then enable_https h d names else return ()))))))))))"

text \<open>
  \<open>configure_combined_nginx\<close>.  The candidates are the applications with at least one
  port.  The root application is the first candidate whose lower-cased name contains
  \<open>ui\<close>, else the first candidate; the loop leaves it out by object identity
  (\<open>app is root_app\<close>), which for a list of distinct objects is its position.
\<close>

definition candidates_of :: "ApplicationSpec list \<Rightarrow> ApplicationSpec list" where
  "candidates_of apps = filter (\<lambda>a. ports (service_config a) \<noteq> []) apps"

fun first_index :: "('a \<Rightarrow> bool) \<Rightarrow> 'a list \<Rightarrow> nat option" where
  "first_index P [] = None"
| "first_index P (x # xs) =
     (if P x then Some 0 else map_option Suc (first_index P xs))"

definition root_index :: "ApplicationSpec list \<Rightarrow> nat" where
  "root_index candidates =
     (case first_index (\<lambda>a. contains ''ui'' (lower (name a))) candidates of
        Some i \<Rightarrow> i | None \<Rightarrow> 0)"

definition first_port :: "ApplicationSpec \<Rightarrow> int" where
  "first_port a = (case ports (service_config a) of [] \<Rightarrow> 0 | port # _ \<Rightarrow> port)"

definition location_prefix :: "ApplicationSpec \<Rightarrow> string" where
  "location_prefix app =
     (let lname = lower (name app);
          prefix0 = (if contains ''api'' lname then ''/api/'' else ''/'' @ name app @ ''/'');
          prefix1 = (if \<not> startswith prefix0 ''/'' then ''/'' @ prefix0 else prefix0);
          prefix2 = (if \<not> endswith prefix1 ''/'' then prefix1 @ ''/'' else prefix1)
      in prefix2)"

definition location_block :: "string \<Rightarrow> int \<Rightarrow> string" where
  \<open>location_block prefix port =
     ''    location '' @ prefix @ '' {'' @ NL @
     ''        proxy_pass http://127.0.0.1:'' @ str_int port @ ''/;'' @ NL @
     ''        proxy_http_version 1.1;'' @ NL @
     ''        proxy_set_header Upgrade $http_upgrade;'' @ NL @
     ''        proxy_set_header Connection 'upgrade';'' @ NL @
     ''        proxy_set_header Host $host;'' @ NL @
     ''        proxy_set_header X-Real-IP $remote_addr;'' @ NL @
     ''    }''\<close>

definition locations_of :: "ApplicationSpec list \<Rightarrow> string list" where
  "locations_of candidates =
     concat (map (\<lambda>(i, app). if i = root_index candidates then []
                              else [location_block (location_prefix app) (first_port app)])
               (zip [0 ..< length candidates] candidates))"

definition combined_config :: "string \<Rightarrow> int \<Rightarrow> string list \<Rightarrow> string list" where
  \<open>combined_config server_name_line root_port locations =
     [''server {'',
      ''    listen 80;'',
      ''    server_name '' @ server_name_line @ '';'',
      ''    client_max_body_size 25m;'',
      ''    location / {'',
      ''        proxy_pass http://127.0.0.1:'' @ str_int root_port @ ''/;'',
      ''        proxy_http_version 1.1;'',
      ''        proxy_set_header Upgrade $http_upgrade;'',
      ''        proxy_set_header Connection 'upgrade';'',
      ''        proxy_set_header Host $host;'',
      ''        proxy_set_header X-Real-IP $remote_addr;'',
      ''    }''] @ locations @ [''}'']\<close>

text \<open>The site text uploaded for a list of applications; \<open>None\<close> when no application has a port.\<close>

definition combined_conf :: "ApplicationSpec list \<Rightarrow> string option" where
  "combined_conf apps =
     (let candidates = candidates_of apps in
      if candidates = [] then None
      else let root_app = candidates ! root_index candidates;
               root_port = first_port root_app;
               names = normalize_server_names (concat (map (\<lambda>a. server_names (service_config a)) candidates))
           in Some (join NL (combined_config (server_name_directive names) root_port
                               (locations_of candidates))))"

definition configure_combined_nginx :: "localhost \<Rightarrow> deployer \<Rightarrow> ApplicationSpec list \<Rightarrow> unit prog" where
  "configure_combined_nginx h d apps =
     (case combined_conf apps of
        None \<Rightarrow> return ()
      | Some conf \<Rightarrow>
         (let candidates = candidates_of apps;
              names = normalize_server_names (concat (map (\<lambda>a. server_names (service_config a)) candidates));
              https_enabled = (\<exists>a \<in> set candidates. https (service_config a))
          in seq (upload_file d conf ''/etc/nginx/sites-available/cloudhand'')
            (seq (run d ''ln -sf /etc/nginx/sites-available/cloudhand /etc/nginx/sites-enabled/cloudhand'' None None)
            (seq (run d ''rm -f /etc/nginx/sites-enabled/default || true'' None None)
            (seq (run d ''systemctl reload nginx'' None None)
            (if https_enabled then enable_https h d names else return ()))))))"

subsection \<open>\<open>deploy\<close>\<close>

definition app_dir_of :: "ApplicationSpec \<Rightarrow> string" where
  "app_dir_of app = destination_path app @ ''/'' @ name app"

definition gh_token_of :: "localhost \<Rightarrow> string" where
  "gh_token_of h =
     str_or (getenv h ''GITHUB_TOKEN'') (str_or (getenv h ''GH_TOKEN'') (str_or (getenv h ''GITHUB_PAT'') []))"

text \<open>Step 1: system packages and, for a Node.js application, the pinned runtime.\<close>

definition deploy_system_deps :: "deployer \<Rightarrow> ApplicationSpec \<Rightarrow> unit prog" where
  \<open>deploy_system_deps d app =
     seq (if system_packages (build_config app) \<noteq> []
          then seq (run d (apt_install (join '' '' (system_packages (build_config app)))) None None)
                 (return ())
          else return ())
       (if runtime app = NODEJS then
          seq (run d ''DEBIAN_FRONTEND=noninteractive apt-get purge -y nodejs npm libnode-dev libnode72 || true'' None None)
         (seq (run d ''DEBIAN_FRONTEND=noninteractive apt-get autoremove -y || true'' None None)
         (seq (run d ''bash -lc "curl -fsSL https://deb.nodesource.com/setup_20.x | bash -"'' None None)
         (seq (run d ''DEBIAN_FRONTEND=noninteractive apt-get install -y nodejs'' None None)
           (return ()))))
        else return ())\<close>

text \<open>Step 2: git sync.  \<open>fetch_cmd_of\<close> is the command of the \<open>try\<close> body.\<close>

definition fetch_cmd_of :: "string \<Rightarrow> ApplicationSpec \<Rightarrow> string" where
  \<open>fetch_cmd_of gh_token app =
     (if gh_token \<noteq> [] then
        ''git -c http.extraheader="Authorization: Bearer '' @ gh_token @ ''" '' @
        ''fetch origin && git -c http.extraheader="Authorization: Bearer '' @ gh_token @ ''" '' @
        ''reset --hard origin/'' @ branch app
      else ''git fetch origin && git reset --hard origin/'' @ branch app)\<close>

definition token_mask :: "string \<Rightarrow> string list option" where
  "token_mask gh_token = (if gh_token \<noteq> [] then Some [gh_token] else None)"

definition fetch_reset :: "localhost \<Rightarrow> deployer \<Rightarrow> ApplicationSpec \<Rightarrow> unit prog" where
  "fetch_reset h d app =
     (let app_dir = app_dir_of app; gh_token = gh_token_of h in
      seq (run d (''test -d '' @ app_dir) None None)
        (seq (run d (fetch_cmd_of gh_token app) (Some app_dir) (token_mask gh_token))
          (return ())))"

definition clone_url_of :: "string \<Rightarrow> ApplicationSpec \<Rightarrow> string" where
  "clone_url_of gh_token app =
     (if gh_token \<noteq> [] then py_replace ''https://'' (''https://'' @ gh_token @ ''@'') (repo_url app)
      else repo_url app)"

definition reclone :: "localhost \<Rightarrow> deployer \<Rightarrow> ApplicationSpec \<Rightarrow> unit prog" where
  "reclone h d app =
     (let app_dir = app_dir_of app; gh_token = gh_token_of h in
      seq (run d (''rm -rf '' @ app_dir) None None)
        (seq (run d (''mkdir -p '' @ destination_path app) None None)
          (seq (run d (''git clone --branch '' @ branch app @ '' '' @ clone_url_of gh_token app @
                        '' '' @ app_dir) None (token_mask gh_token))
            (return ()))))"

definition deploy_git_sync :: "localhost \<Rightarrow> deployer \<Rightarrow> ApplicationSpec \<Rightarrow> unit prog" where
  "deploy_git_sync h d app = try_except (fetch_reset h d app) (reclone h d app)"

text \<open>Step 3: the optional install and build commands, run in the checkout.\<close>

definition deploy_build :: "deployer \<Rightarrow> ApplicationSpec \<Rightarrow> unit prog" where
  "deploy_build d app =
     (let app_dir = app_dir_of app in
      seq (if truthy (install_command (build_config app))
           then seq (run d (the (install_command (build_config app))) (Some app_dir) None) (return ())
           else return ())
          (if truthy (build_command (build_config app))
           then seq (run d (the (build_command (build_config app))) (Some app_dir) None) (return ())
           else return ()))"

definition deploy :: "localhost \<Rightarrow> deployer \<Rightarrow> ApplicationSpec \<Rightarrow> bool \<Rightarrow> unit prog" where
  "deploy h d app with_nginx =
     seq (deploy_system_deps d app)
    (seq (deploy_git_sync h d app)
    (seq (deploy_build d app)
    (seq (configure_systemd h d app (app_dir_of app))
         (if with_nginx then configure_nginx h d app else return ()))))"

section \<open>The resource graph and the desired-state model (models.py)\<close>

text \<open>
  Pydantic models are records; a \<open>Dict[str, str]\<close> is an association list in
  insertion order (Python dictionaries keep it).  Field names that several models share
  carry a prefix: \<open>node_id\<close>, \<open>node_type\<close>, \<open>node_name\<close>, \<open>node_region\<close>,
  \<open>node_provider\<close> and \<open>node_labels\<close> are \<open>Node\<close>'s \<open>id\<close>, \<open>type\<close>,
  \<open>name\<close>, \<open>region\<close>, \<open>provider\<close> and \<open>labels\<close>; \<open>edge_type\<close> is \<open>Edge.type\<close>;
  \<open>net_name\<close> is \<open>NetworkSpec.name\<close>; \<open>inst_name\<close>, \<open>inst_size\<close>,
  \<open>inst_region\<close> and \<open>inst_labels\<close> are \<open>InstanceSpec\<close>'s \<open>name\<close>, \<open>size\<close>,
  \<open>region\<close> and \<open>labels\<close>.
\<close>

datatype NodeType =
  COMPUTE_INSTANCE | LOAD_BALANCER | NETWORK | SUBNET | FIREWALL | VOLUME | IP_ADDRESS | DNS_RECORD

datatype EdgeType = ATTACHED_TO | IN_NETWORK | PROTECTED_BY | TARGETS | RESOLVES_TO

record Node =
  node_id :: string
  node_type :: NodeType
  node_name :: "string option"
  node_region :: "string option"
  zone :: "string option"
  node_provider :: "string option"
  provider_native_id :: "string option"
  node_labels :: "(string \<times> string) list"
  attrs :: "(string \<times> string) list"

record Edge =
  from_id :: string
  to_id :: string
  edge_type :: EdgeType

record CloudGraph =
  nodes :: "Node list"
  edges :: "Edge list"

record NetworkSpec =
  net_name :: string
  cidr :: string

record UnattendedUpgradesPolicy =
  enabled :: bool
  allowed_origins :: "string list"
  auto_reboot :: bool
  auto_reboot_time :: string

record MaintenancePolicy =
  unattended_upgrades :: UnattendedUpgradesPolicy

record InstanceSpec =
  inst_name :: string
  inst_size :: string
  network :: string
  inst_region :: "string option"
  inst_labels :: "(string \<times> string) list"
  workloads :: "ApplicationSpec list"
  maintenance :: "MaintenancePolicy option"

text \<open>
  The load balancer, firewall, DNS and container collections of a \<open>DesiredStateSpec\<close>
  are carried as lists of their field values; the compiler leaves them empty and the
  generator does not read them.
\<close>

datatype LoadBalancerSpec =
  LoadBalancerSpec string string "(int \<times> string) list" "(string \<times> string) list"

datatype FirewallSpec =
  FirewallSpec string "(string \<times> string \<times> string option \<times> string option) list"
    "(string \<times> string) list"

datatype DnsRecordSpec = DnsRecordSpec string string string string

datatype ContainerSpec =
  ContainerSpec string string string "(int \<times> int option) list" "(string \<times> string) list"
    "(string \<times> string) list" string

record DesiredStateSpec =
  provider :: string
  region :: "string option"
  networks :: "NetworkSpec list"
  instances :: "InstanceSpec list"
  load_balancers :: "LoadBalancerSpec list"
  firewalls :: "FirewallSpec list"
  dns_records :: "DnsRecordSpec list"
  containers :: "ContainerSpec list"

section \<open>The graph-to-spec compiler (core/spec.py)\<close>

text \<open>\<open>d.setdefault(k, v)\<close> on an insertion-ordered dictionary.\<close>

definition setdefault :: "'k \<Rightarrow> 'v \<Rightarrow> ('k \<times> 'v) list \<Rightarrow> ('k \<times> 'v) list" where
  "setdefault k v d = (if k \<in> fst ` set d then d else d @ [(k, v)])"

text \<open>\<open>s.add(x)\<close> on a set kept as the list of its elements in insertion order.\<close>

definition set_add :: "'a \<Rightarrow> 'a list \<Rightarrow> 'a list" where
  "set_add x xs = (if x \<in> set xs then xs else xs @ [x])"

text \<open>First loop: the \<open>networks\<close> dictionary, keyed by node id.\<close>

definition network_of_node :: "Node \<Rightarrow> NetworkSpec" where
  "network_of_node node =
     \<lparr>net_name = str_or (node_name node) (node_id node),
      cidr = str_or (map_of (attrs node) ''ip_range'') ''10.0.0.0/24''\<rparr>"

definition build_networks :: "Node list \<Rightarrow> (string \<times> NetworkSpec) list" where
  "build_networks ns =
     foldl (\<lambda>nets node. if node_type node = NETWORK
                          then AList.update (node_id node) (network_of_node node) nets
                          else nets) [] ns"

text \<open>Second loop: \<open>server_network\<close>, from the \<open>in_network\<close> edges into known networks.\<close>

definition build_server_network ::
  "(string \<times> NetworkSpec) list \<Rightarrow> Edge list \<Rightarrow> (string \<times> string) list" where
  "build_server_network nets es =
     foldl (\<lambda>server_network edge.
              if edge_type edge = IN_NETWORK \<and> to_id edge \<in> fst ` set nets
              then AList.update (from_id edge) (net_name (the (map_of nets (to_id edge)))) server_network
              else server_network) [] es"

text \<open>
  Third loop, one node at a time.  The state is the \<open>networks\<close> dictionary, the set
  \<open>regions\<close> (its elements, in the order they were added) and the \<open>instances\<close> list.
\<close>

definition instance_step ::
  "(string \<times> string) list \<Rightarrow>
   (string \<times> NetworkSpec) list \<times> string list \<times> InstanceSpec list \<Rightarrow> Node \<Rightarrow>
   (string \<times> NetworkSpec) list \<times> string list \<times> InstanceSpec list" where
  "instance_step server_network st node =
     (case st of (nets, regions, insts) \<Rightarrow>
      if node_type node = COMPUTE_INSTANCE then
        (let nname = (case map_of server_network (node_id node) of
                        None \<Rightarrow> ''default'' | Some n \<Rightarrow> n);
             nets' = (if nname \<notin> set (map (\<lambda>(k, n). net_name n) nets)
                      then setdefault (''synthetic:'' @ nname)
                             \<lparr>net_name = nname, cidr = ''10.0.0.0/24''\<rparr> nets
                      else nets);
             sz = str_or (map_of (attrs node) ''server_type'') ''cx21'';
             regions' = (if truthy (node_region node)
                         then set_add (the (node_region node)) regions else regions)
         in (nets', regions',
             insts @ [\<lparr>inst_name = str_or (node_name node) (node_id node), inst_size = sz,
                       network = nname, inst_region = node_region node,
                       inst_labels = node_labels node, workloads = [], maintenance = None\<rparr>]))
      else (nets, regions, insts))"

text \<open>
  \<open>graph_to_spec\<close>.  \<open>next(iter(regions))\<close> takes the first element of a Python
  \<open>set\<close> of strings in iteration order, which CPython derives from the strings' hashes
  and not from the order of insertion; the parameter \<open>first_of\<close> stands for that choice,
  as a function of the elements in insertion order.
\<close>

definition graph_to_spec :: "(string list \<Rightarrow> string) \<Rightarrow> CloudGraph \<Rightarrow> string \<Rightarrow> DesiredStateSpec" where
  "graph_to_spec first_of graph prov =
     (let nets0 = build_networks (nodes graph);
          server_network = build_server_network nets0 (edges graph)
      in case foldl (instance_step server_network) (nets0, [], []) (nodes graph) of
           (nets, regions, insts) \<Rightarrow>
             \<lparr>provider = prov,
              region = (if regions \<noteq> [] then Some (first_of regions) else None),
              networks = map snd nets,
              instances = insts,
              load_balancers = [], firewalls = [], dns_records = [], containers = []\<rparr>)"

section \<open>The Terraform generator (terraform_gen.py)\<close>

definition DEFAULT_ALLOWED_ORIGINS :: "string list" where
  "DEFAULT_ALLOWED_ORIGINS =
     [''${distro_id}:${distro_codename}-security'',
      ''${distro_id}ESMApps:${distro_codename}-apps-security'',
      ''${distro_id}ESM:${distro_codename}-infra-security'']"

definition DEFAULT_REBOOT_TIME :: string where
  "DEFAULT_REBOOT_TIME = ''04:00''"

definition base_user_data :: string where
  \<open>base_user_data =
     ''#cloud-config'' @ NL @
     ''package_update: true'' @ NL @
     ''package_upgrade: true'' @ NL @
     ''packages:'' @ NL @
     ''  - git'' @ NL @
     ''  - curl'' @ NL @
     ''  - python3'' @ NL @
     ''  - python3-pip'' @ NL @
     ''  - nginx'' @ NL @
     ''  - docker.io'' @ NL @
     ''  - unattended-upgrades'' @ NL @
     NL @
     ''ssh_pwauth: false'' @ NL @
     ''chpasswd:'' @ NL @
     ''  expire: False'' @ NL @
     ''  list: |'' @ NL @
     ''    root:cloudhand-temp-rotate'' @ NL @
     ''users:'' @ NL @
     ''  - name: root'' @ NL @
     ''    ssh_authorized_keys:'' @ NL @
     ''      - ${var.ssh_public_key}'' @ NL @
     NL @
     ''write_files:'' @ NL @
     ''  - path: /etc/apt/apt.conf.d/20auto-upgrades'' @ NL @
     ''    permissions: "0644"'' @ NL @
     ''    content: |'' @ NL @
     ''      APT::Periodic::Update-Package-Lists "__CH_PERIODIC_UPDATE__";'' @ NL @
     ''      APT::Periodic::Unattended-Upgrade "__CH_PERIODIC_UPGRADE__";'' @ NL @
     NL @
     ''  - path: /etc/apt/apt.conf.d/50unattended-upgrades'' @ NL @
     ''    permissions: "0644"'' @ NL @
     ''    content: |'' @ NL @
     ''      Unattended-Upgrade::Allowed-Origins {'' @ NL @
     ''__CH_ALLOWED_ORIGINS__'' @ NL @
     ''      };'' @ NL @
     NL @
     ''      Unattended-Upgrade::Automatic-Reboot "__CH_AUTO_REBOOT__";'' @ NL @
     ''      Unattended-Upgrade::Automatic-Reboot-Time "__CH_REBOOT_TIME__";'' @ NL @
     NL @
     ''  - path: /etc/systemd/system/apt-daily.timer.d/override.conf'' @ NL @
     ''    permissions: "0644"'' @ NL @
     ''    content: |'' @ NL @
     ''      [Timer]'' @ NL @
     ''      OnCalendar='' @ NL @
     ''      OnCalendar=*-*-* 02:00:00'' @ NL @
     ''      RandomizedDelaySec=15m'' @ NL @
     ''      Persistent=false'' @ NL @
     NL @
     ''  - path: /etc/systemd/system/apt-daily-upgrade.timer.d/override.conf'' @ NL @
     ''    permissions: "0644"'' @ NL @
     ''    content: |'' @ NL @
     ''      [Timer]'' @ NL @
     ''      OnCalendar='' @ NL @
     ''      OnCalendar=*-*-* 02:15:00'' @ NL @
     ''      RandomizedDelaySec=15m'' @ NL @
     ''      Persistent=false'' @ NL @
     NL @
     ''runcmd:'' @ NL @
     ''  - bash -lc "chage -I -1 -m 0 -M 99999 -E -1 root"'' @ NL @
     ''  - bash -lc "chage -d $(date +%Y-%m-%d) root"'' @ NL @
     ''  - passwd -d root || true'' @ NL @
     ''  - systemctl daemon-reload'' @ NL @
     ''  - systemctl restart apt-daily.timer apt-daily-upgrade.timer'' @ NL @
     ''  - systemctl enable nginx'' @ NL @
     ''  - systemctl start nginx'' @ NL\<close>

definition render_allowed_origins :: "string list \<Rightarrow> string" where
  \<open>render_allowed_origins origins =
     concat (map (\<lambda>origin. ''          "'' @ py_replace ''${'' ''$${'' origin @ ''";'' @ NL) origins)\<close>

definition dict_get_or :: "(string \<times> string) list \<Rightarrow> string \<Rightarrow> string \<Rightarrow> string" where
  "dict_get_or d k dflt = (case map_of d k of None \<Rightarrow> dflt | Some v \<Rightarrow> v)"

definition user_data_for_instance :: "InstanceSpec \<Rightarrow> string" where
  "user_data_for_instance inst =
     (let labels = inst_labels inst;
          role = lower (str_or (map_of labels ''role'') []);
          stateful = (lower (dict_get_or labels ''stateful'' []) = ''true'' \<or> role \<in> {''db'', ''postgres''});
          policy = map_option unattended_upgrades (maintenance inst);
          origins = (case policy of None \<Rightarrow> DEFAULT_ALLOWED_ORIGINS
                     | Some p \<Rightarrow> if allowed_origins p \<noteq> [] then allowed_origins p
                                 else DEFAULT_ALLOWED_ORIGINS);
          auto_reboot_flag = (case policy of None \<Rightarrow> \<not> stateful | Some p \<Rightarrow> auto_reboot p);
          reboot_time = (case policy of None \<Rightarrow> DEFAULT_REBOOT_TIME
                         | Some p \<Rightarrow> if auto_reboot_time p \<noteq> [] then auto_reboot_time p
                                     else DEFAULT_REBOOT_TIME);
          periodic = (case policy of None \<Rightarrow> ''1'' | Some p \<Rightarrow> if enabled p then ''1'' else ''0'')
      in py_replace ''__CH_PERIODIC_UPGRADE__'' periodic
           (py_replace ''__CH_PERIODIC_UPDATE__'' periodic
             (py_replace ''__CH_REBOOT_TIME__'' reboot_time
               (py_replace ''__CH_AUTO_REBOOT__'' (if auto_reboot_flag then ''true'' else ''false'')
                 (py_replace ''__CH_ALLOWED_ORIGINS__'' (render_allowed_origins origins)
                    base_user_data)))))"

definition tf_name :: "string \<Rightarrow> string" where
  "tf_name n = py_replace ''-'' ''_'' n"

definition opt_or :: "string option \<Rightarrow> string option \<Rightarrow> string option" where
  "opt_or a b = (if truthy a then a else b)"

definition server_block :: "InstanceSpec \<Rightarrow> DesiredStateSpec \<Rightarrow> string \<Rightarrow> string" where
  \<open>server_block inst spec user_data =
     (let res_name = tf_name (inst_name inst);
          nname = tf_name (network inst);
          labels_hcl = concat (map (\<lambda>(k, v). ''    '' @ k @ '' = "'' @ v @ ''"'' @ NL) (inst_labels inst));
          user_data_hcl = ''  user_data = <<-EOF'' @ NL @ user_data @ ''EOF'' @ NL;
          location = opt_or (inst_region inst) (region spec)
      in concat
           ([''resource "hcloud_server" "'' @ res_name @ ''" {'' @ NL,
             ''  name        = "'' @ inst_name inst @ ''"'' @ NL,
             ''  server_type = "'' @ inst_size inst @ ''"'' @ NL,
             ''  image       = "ubuntu-22.04"'' @ NL] @
            (if truthy location then [''  location    = "'' @ the location @ ''"'' @ NL] else []) @
            (if labels_hcl \<noteq> [] then [''  labels = {'' @ NL @ labels_hcl @ ''  }'' @ NL] else []) @
            [NL @ ''  network {'' @ NL,
             ''    network_id = data.hcloud_network.'' @ nname @ ''.id'' @ NL,
             ''  }'' @ NL @ NL,
             user_data_hcl,
             ''  lifecycle {'' @ NL,
             ''    ignore_changes = [user_data]'' @ NL,
             ''  }'' @ NL,
             ''}'' @ NL @ NL]))\<close>

definition backend_tf :: string where
  \<open>backend_tf =
     ''terraform {'' @ NL @
     ''  # Using local backend for now; swap to remote backend when available.'' @ NL @
     ''}'' @ NL\<close>

definition providers_tf :: string where
  \<open>providers_tf =
     ''terraform {'' @ NL @
     ''  required_providers {'' @ NL @
     ''    hcloud = {'' @ NL @
     ''      source  = "hetznercloud/hcloud"'' @ NL @
     ''      version = "~> 1.0"'' @ NL @
     ''    }'' @ NL @
     ''  }'' @ NL @
     ''}'' @ NL @
     NL @
     ''provider "hcloud" {'' @ NL @
     ''  token = var.hcloud_token'' @ NL @
     ''}'' @ NL\<close>

definition variables_tf :: string where
  \<open>variables_tf =
     ''variable "hcloud_token" {'' @ NL @
     ''  type      = string'' @ NL @
     ''  sensitive = true'' @ NL @
     ''}'' @ NL @
     NL @
     ''variable "ssh_public_key" {'' @ NL @
     ''  type = string'' @ NL @
     ''}'' @ NL\<close>

definition network_tf :: "DesiredStateSpec \<Rightarrow> string" where
  \<open>network_tf spec =
     concat (map (\<lambda>net. ''data "hcloud_network" "'' @ tf_name (net_name net) @ ''" {'' @ NL @
                          ''  name = "'' @ net_name net @ ''"'' @ NL @
                          ''}'' @ NL @ NL) (networks spec))\<close>

definition servers_tf :: "DesiredStateSpec \<Rightarrow> string" where
  "servers_tf spec =
     concat (map (\<lambda>inst. server_block inst spec (user_data_for_instance inst)) (instances spec))"

definition outputs_tf :: "DesiredStateSpec \<Rightarrow> string" where
  \<open>outputs_tf spec =
     concat ([''output "server_ips" {'' @ NL @ ''  value = {'' @ NL] @
             map (\<lambda>inst. ''    "'' @ inst_name inst @ ''" = hcloud_server.'' @ tf_name (inst_name inst) @
                          ''.ipv4_address'' @ NL) (instances spec) @
             [''  }'' @ NL @ ''}'' @ NL])\<close>

text \<open>
  \<open>HetznerTerraformGenerator.generate\<close>: the directory is created and the six files are
  written, in this order ( \<open>out_dir / name\<close> is \<open>out_dir\<close>, a slash and the name).
\<close>

definition generate :: "DesiredStateSpec \<Rightarrow> string \<Rightarrow> unit prog" where
  "generate spec out_dir =
     seq (emit (Mkdir out_dir))
    (seq (emit (WriteFile (out_dir @ ''/backend.tf'') backend_tf))
    (seq (emit (WriteFile (out_dir @ ''/providers.tf'') providers_tf))
    (seq (emit (WriteFile (out_dir @ ''/variables.tf'') variables_tf))
    (seq (emit (WriteFile (out_dir @ ''/network.tf'') (network_tf spec)))
    (seq (emit (WriteFile (out_dir @ ''/servers.tf'') (servers_tf spec)))
         (emit (WriteFile (out_dir @ ''/outputs.tf'') (outputs_tf spec))))))))"

text \<open>\<open>get_generator\<close>: the registry holds the Hetzner generator only.\<close>

definition get_generator :: "string \<Rightarrow> error + (DesiredStateSpec \<Rightarrow> string \<Rightarrow> unit prog)" where
  "get_generator prov =
     (if prov = ''hetzner'' then Inr generate else Inl (ValueError (''Unknown provider: '' @ prov)))"

section \<open>JSON values and the graph file (models.py, core/scan.py, core/spec.py)\<close>

text \<open>
  What \<open>json.loads\<close> returns and what a model is dumped to: an object is the list of
  its members in order (its keys are distinct), a number is an integer or a fraction.
\<close>

datatype json =
    JNull
  | JBool bool
  | JInt int
  | JFloat rat
  | JStr string
  | JArr "json list"
  | JObj "(string \<times> json) list"

text \<open>Truth value of a JSON value as a Python object (\<open>if not x\<close>).\<close>

fun json_truthy :: "json \<Rightarrow> bool" where
  "json_truthy JNull = False"
| "json_truthy (JBool b) = b"
| "json_truthy (JInt i) = (i \<noteq> 0)"
| "json_truthy (JFloat q) = (q \<noteq> 0)"
| "json_truthy (JStr s) = (s \<noteq> [])"
| "json_truthy (JArr xs) = (xs \<noteq> [])"
| "json_truthy (JObj kvs) = (kvs \<noteq> [])"

text \<open>
  \<open>x.get(k)\<close>: defined on a dictionary only; on any other value Python raises
  \<open>AttributeError\<close>, whose message names the type of the value.
\<close>

definition py_type_name :: "json \<Rightarrow> string" where
  "py_type_name j =
     (case j of JNull \<Rightarrow> ''NoneType'' | JBool _ \<Rightarrow> ''bool'' | JInt _ \<Rightarrow> ''int''
      | JFloat _ \<Rightarrow> ''float'' | JStr _ \<Rightarrow> ''str'' | JArr _ \<Rightarrow> ''list'' | JObj _ \<Rightarrow> ''dict'')"

definition no_get :: "json \<Rightarrow> error" where
  "no_get j =
     AttributeError ([CHR 0x27] @ py_type_name j @ [CHR 0x27] @
                     '' object has no attribute 'get'' @ [CHR 0x27])"

fun json_get :: "json \<Rightarrow> string \<Rightarrow> error + json option" where
  "json_get (JObj kvs) k = Inr (map_of kvs k)"
| "json_get j k = Inl (no_get j)"

text \<open>
  \<open>model_dump\<close> of the graph models, in JSON mode: every field under its field name,
  \<open>None\<close> as \<open>null\<close>, an enumeration member as its value.
\<close>

definition node_type_value :: "NodeType \<Rightarrow> string" where
  "node_type_value t =
     (case t of COMPUTE_INSTANCE \<Rightarrow> ''ComputeInstance'' | LOAD_BALANCER \<Rightarrow> ''LoadBalancer''
      | NETWORK \<Rightarrow> ''Network'' | SUBNET \<Rightarrow> ''Subnet'' | FIREWALL \<Rightarrow> ''Firewall''
      | VOLUME \<Rightarrow> ''Volume'' | IP_ADDRESS \<Rightarrow> ''IpAddress'' | DNS_RECORD \<Rightarrow> ''DnsRecord'')"

definition edge_type_value :: "EdgeType \<Rightarrow> string" where
  "edge_type_value t =
     (case t of ATTACHED_TO \<Rightarrow> ''attached_to'' | IN_NETWORK \<Rightarrow> ''in_network''
      | PROTECTED_BY \<Rightarrow> ''protected_by'' | TARGETS \<Rightarrow> ''targets'' | RESOLVES_TO \<Rightarrow> ''resolves_to'')"

definition dump_opt_str :: "string option \<Rightarrow> json" where
  "dump_opt_str x = (case x of None \<Rightarrow> JNull | Some s \<Rightarrow> JStr s)"

definition dump_dict :: "(string \<times> string) list \<Rightarrow> json" where
  "dump_dict d = JObj (map (\<lambda>(k, v). (k, JStr v)) d)"

definition dump_node :: "Node \<Rightarrow> json" where
  "dump_node n =
     JObj [(''id'', JStr (node_id n)),
           (''type'', JStr (node_type_value (node_type n))),
           (''name'', dump_opt_str (node_name n)),
           (''region'', dump_opt_str (node_region n)),
           (''zone'', dump_opt_str (zone n)),
           (''provider'', dump_opt_str (node_provider n)),
           (''provider_native_id'', dump_opt_str (provider_native_id n)),
           (''labels'', dump_dict (node_labels n)),
           (''attrs'', dump_dict (attrs n))]"

definition dump_edge :: "Edge \<Rightarrow> json" where
  "dump_edge e =
     JObj [(''from_id'', JStr (from_id e)),
           (''to_id'', JStr (to_id e)),
           (''type'', JStr (edge_type_value (edge_type e)))]"

definition dump_graph :: "CloudGraph \<Rightarrow> json" where
  "dump_graph g =
     JObj [(''nodes'', JArr (map dump_node (nodes g))),
           (''edges'', JArr (map dump_edge (edges g)))]"

text \<open>
  \<open>model_validate\<close> of the graph models.  A \<open>str\<close> field takes a JSON string only, an
  optional one also \<open>null\<close> or absence, an enumeration field one of its values, a
  \<open>Dict[str, str]\<close> an object of strings, a list field an array; a field with a default
  may be absent; members the model does not declare are ignored.  \<open>Edge\<close> takes
  \<open>from\<close> and \<open>to\<close> by alias or, as \<open>populate_by_name\<close> allows, by field name.
\<close>

fun traverse :: "('a \<Rightarrow> error + 'b) \<Rightarrow> 'a list \<Rightarrow> error + 'b list" where
  "traverse f [] = Inr []"
| "traverse f (x # xs) =
     (case f x of Inl e \<Rightarrow> Inl e
      | Inr y \<Rightarrow> (case traverse f xs of Inl e \<Rightarrow> Inl e | Inr ys \<Rightarrow> Inr (y # ys)))"

definition need_str :: "string \<Rightarrow> json option \<Rightarrow> error + string" where
  "need_str field v =
     (case v of Some (JStr s) \<Rightarrow> Inr s
      | None \<Rightarrow> Inl (ValidationError (field @ '': Field required''))
      | _ \<Rightarrow> Inl (ValidationError (field @ '': Input should be a valid string'')))"

definition opt_str :: "string \<Rightarrow> json option \<Rightarrow> error + string option" where
  "opt_str field v =
     (case v of None \<Rightarrow> Inr None | Some JNull \<Rightarrow> Inr None | Some (JStr s) \<Rightarrow> Inr (Some s)
      | _ \<Rightarrow> Inl (ValidationError (field @ '': Input should be a valid string'')))"

definition str_item :: "string \<Rightarrow> string \<times> json \<Rightarrow> error + (string \<times> string)" where
  "str_item field kv =
     (case kv of (k, JStr s) \<Rightarrow> Inr (k, s)
      | (k, _) \<Rightarrow> Inl (ValidationError (field @ ''.'' @ k @ '': Input should be a valid string'')))"

definition str_dict :: "string \<Rightarrow> json option \<Rightarrow> error + (string \<times> string) list" where
  "str_dict field v =
     (case v of None \<Rightarrow> Inr []
      | Some (JObj kvs) \<Rightarrow> traverse (str_item field) kvs
      | _ \<Rightarrow> Inl (ValidationError (field @ '': Input should be a valid dictionary'')))"

definition parse_node_type :: "json option \<Rightarrow> error + NodeType" where
  "parse_node_type v =
     (case v of None \<Rightarrow> Inl (ValidationError ''type: Field required'')
      | Some (JStr s) \<Rightarrow>
          (case filter (\<lambda>t. node_type_value t = s)
                  [COMPUTE_INSTANCE, LOAD_BALANCER, NETWORK, SUBNET, FIREWALL, VOLUME, IP_ADDRESS, DNS_RECORD] of
             t # _ \<Rightarrow> Inr t
           | [] \<Rightarrow> Inl (ValidationError ''type: Input should be a node type''))
      | _ \<Rightarrow> Inl (ValidationError ''type: Input should be a node type''))"

definition parse_edge_type :: "json option \<Rightarrow> error + EdgeType" where
  "parse_edge_type v =
     (case v of None \<Rightarrow> Inl (ValidationError ''type: Field required'')
      | Some (JStr s) \<Rightarrow>
          (case filter (\<lambda>t. edge_type_value t = s)
                  [ATTACHED_TO, IN_NETWORK, PROTECTED_BY, TARGETS, RESOLVES_TO] of
             t # _ \<Rightarrow> Inr t
           | [] \<Rightarrow> Inl (ValidationError ''type: Input should be an edge type''))
      | _ \<Rightarrow> Inl (ValidationError ''type: Input should be an edge type''))"

text \<open>Sequencing of validation results.\<close>

definition and_then :: "error + 'a \<Rightarrow> ('a \<Rightarrow> error + 'b) \<Rightarrow> error + 'b" where
  "and_then r f = (case r of Inl e \<Rightarrow> Inl e | Inr x \<Rightarrow> f x)"

definition validate_node :: "json \<Rightarrow> error + Node" where
  "validate_node j =
     (case j of
        JObj kvs \<Rightarrow>
          (let m = map_of kvs in
           and_then (need_str ''id'' (m ''id'')) (\<lambda>i.
           and_then (parse_node_type (m ''type'')) (\<lambda>t.
           and_then (opt_str ''name'' (m ''name'')) (\<lambda>nm.
           and_then (opt_str ''region'' (m ''region'')) (\<lambda>rg.
           and_then (opt_str ''zone'' (m ''zone'')) (\<lambda>zn.
           and_then (opt_str ''provider'' (m ''provider'')) (\<lambda>pr.
           and_then (opt_str ''provider_native_id'' (m ''provider_native_id'')) (\<lambda>pn.
           and_then (str_dict ''labels'' (m ''labels'')) (\<lambda>ls.
           and_then (str_dict ''attrs'' (m ''attrs'')) (\<lambda>as.
             Inr \<lparr>node_id = i, node_type = t, node_name = nm, node_region = rg, zone = zn,
                  node_provider = pr, provider_native_id = pn, node_labels = ls,
                  attrs = as\<rparr>))))))))))
      | _ \<Rightarrow> Inl (ValidationError ''Input should be a valid dictionary or instance of Node''))"

definition by_alias_or_name :: "(string \<times> json) list \<Rightarrow> string \<Rightarrow> string \<Rightarrow> json option" where
  "by_alias_or_name kvs alias field =
     (case map_of kvs alias of Some v \<Rightarrow> Some v | None \<Rightarrow> map_of kvs field)"

definition validate_edge :: "json \<Rightarrow> error + Edge" where
  "validate_edge j =
     (case j of
        JObj kvs \<Rightarrow>
          and_then (need_str ''from'' (by_alias_or_name kvs ''from'' ''from_id'')) (\<lambda>f.
          and_then (need_str ''to'' (by_alias_or_name kvs ''to'' ''to_id'')) (\<lambda>t.
          and_then (parse_edge_type (map_of kvs ''type'')) (\<lambda>ty.
            Inr \<lparr>from_id = f, to_id = t, edge_type = ty\<rparr>)))
      | _ \<Rightarrow> Inl (ValidationError ''Input should be a valid dictionary or instance of Edge''))"

definition model_list :: "string \<Rightarrow> (json \<Rightarrow> error + 'a) \<Rightarrow> json option \<Rightarrow> error + 'a list" where
  "model_list field f v =
     (case v of None \<Rightarrow> Inr []
      | Some (JArr xs) \<Rightarrow> traverse f xs
      | _ \<Rightarrow> Inl (ValidationError (field @ '': Input should be a valid list'')))"

definition validate_graph :: "json \<Rightarrow> error + CloudGraph" where
  "validate_graph j =
     (case j of
        JObj kvs \<Rightarrow>
          and_then (model_list ''nodes'' validate_node (map_of kvs ''nodes'')) (\<lambda>ns.
          and_then (model_list ''edges'' validate_edge (map_of kvs ''edges'')) (\<lambda>es.
            Inr \<lparr>nodes = ns, edges = es\<rparr>))
      | _ \<Rightarrow> Inl (ValidationError ''Input should be a valid dictionary or instance of CloudGraph''))"

section \<open>The apply orchestrator (core/apply.py, core/paths.py)\<close>

text \<open>
  The machine \<open>apply_plan\<close> runs on.  \<open>host\<close> gives the process environment and the
  local files; \<open>json_loads\<close> is \<open>json.loads\<close>; \<open>model_validate_spec\<close> is
  \<open>DesiredStateSpec.model_validate\<close>, whose failure is a \<open>ValidationError\<close> with a
  message; \<open>model_dump_json\<close> is the spec serialized with \<open>indent=2\<close>;
  \<open>project_ssh_key\<close> is \<open>get_or_create_project_ssh_key\<close> (secrets.py, backed by a
  secret store or by key files); \<open>which\<close> is \<open>shutil.which\<close>; \<open>subprocess\<close> gives
  the return code and the standard output of a child process; \<open>load_private_key\<close> is
  the key parsing of the \<open>ServerDeployer\<close> constructor; \<open>remote_at\<close> is the host
  behind an address; \<open>format_runtime\<close> is how an f-string renders a \<open>RuntimeType\<close>.
\<close>

record system =
  host :: localhost
  json_loads :: "string \<Rightarrow> error + json"
  model_validate_spec :: "json \<Rightarrow> string + DesiredStateSpec"
  model_dump_json :: "DesiredStateSpec \<Rightarrow> string"
  project_ssh_key :: "action list \<Rightarrow> string \<Rightarrow> error + string \<times> string"
  which :: "string \<Rightarrow> string option"
  subprocess :: "action list \<Rightarrow> string list \<Rightarrow> int \<times> string"
  load_private_key :: "string \<Rightarrow> error option"
  remote_at :: "string \<Rightarrow> remote"
  format_runtime :: "RuntimeType \<Rightarrow> string"

definition cloudhand_dir :: "string \<Rightarrow> string" where
  "cloudhand_dir root_dir = root_dir @ ''/cloudhand''"

definition terraform_dir :: "string \<Rightarrow> string" where
  "terraform_dir root_dir = cloudhand_dir root_dir @ ''/terraform''"

text \<open>Lines 22 to 31: the plan file is read, parsed and its \<open>new_spec\<close> validated.\<close>

definition load_new_spec :: "system \<Rightarrow> string \<Rightarrow> error + DesiredStateSpec" where
  "load_new_spec sys plan_path =
     (case read_text (host sys) plan_path of
        None \<Rightarrow> Inl (FileNotFoundError (''Plan file not found at '' @ plan_path))
      | Some text \<Rightarrow>
          and_then (json_loads sys text) (\<lambda>plan_data.
          and_then (json_get plan_data ''new_spec'') (\<lambda>new_spec_data.
            case new_spec_data of
              None \<Rightarrow> Inl (ValueError (''Plan does not contain 'new_spec'' @ [CHR 0x27]))
            | Some v \<Rightarrow>
                if \<not> json_truthy v
                then Inl (ValueError (''Plan does not contain 'new_spec'' @ [CHR 0x27]))
                else (case model_validate_spec sys v of
                        Inl msg \<Rightarrow> Inl (ValidationError msg)
                      | Inr spec \<Rightarrow> Inr spec))))"

definition fetch_key :: "system \<Rightarrow> string \<Rightarrow> (string \<times> string) prog" where
  "fetch_key sys project_id tr = (project_ssh_key sys tr project_id, tr @ [KeyStore project_id])"

text \<open>The variables added to the environment of the provisioning tool.\<close>

definition tf_env :: "system \<Rightarrow> string \<Rightarrow> (string \<times> string) list" where
  "tf_env sys pub_key =
     (if getenv (host sys) ''TF_VAR_hcloud_token'' = None \<and> truthy (getenv (host sys) ''HCLOUD_TOKEN'')
      then [(''TF_VAR_hcloud_token'', the (getenv (host sys) ''HCLOUD_TOKEN''))] else []) @
     [(''TF_VAR_ssh_public_key'', pub_key)]"

definition run_tool ::
  "system \<Rightarrow> string list \<Rightarrow> string \<Rightarrow> (string \<times> string) list \<Rightarrow> (int \<times> string) prog" where
  "run_tool sys argv cwd env tr = (Inr (subprocess sys tr argv), tr @ [Subprocess argv cwd env])"

text \<open>\<open>outputs.get("server_ips", {}).get("value", {})\<close>\<close>

definition server_ips_of :: "system \<Rightarrow> string \<Rightarrow> error + json" where
  "server_ips_of sys tf_out =
     and_then (json_loads sys tf_out) (\<lambda>outputs.
     and_then (json_get outputs ''server_ips'') (\<lambda>a.
     and_then (json_get (case a of None \<Rightarrow> JObj [] | Some x \<Rightarrow> x) ''value'') (\<lambda>b.
       Inr (case b of None \<Rightarrow> JObj [] | Some x \<Rightarrow> x))))"

definition nginx_mode_of :: "system \<Rightarrow> string" where
  "nginx_mode_of sys =
     lower (strip (case getenv (host sys) ''CLOUDHAND_NGINX_MODE'' of
                     None \<Rightarrow> ''per-app'' | Some v \<Rightarrow> v))"

text \<open>The inner loops: every workload of an instance is announced and deployed.\<close>

fun deploy_each :: "system \<Rightarrow> deployer \<Rightarrow> bool \<Rightarrow> ApplicationSpec list \<Rightarrow> unit prog" where
  "deploy_each sys d with_nginx [] = return ()"
| "deploy_each sys d with_nginx (app # apps) =
     seq (emit (Print (''  -> Deploying '' @ name app @ '' ('' @
                       format_runtime sys (runtime app) @ '')...'')))
    (seq (deploy (host sys) d app with_nginx)
         (deploy_each sys d with_nginx apps))"

text \<open>
  One round of the outer loop.  An instance without an address or without workloads is
  skipped.  The address is the string the provisioning output gives; an address that
  is not a string is outside this model and ends the run.
\<close>

definition deploy_instance ::
  "system \<Rightarrow> string \<Rightarrow> string \<Rightarrow> string \<Rightarrow> json \<Rightarrow> InstanceSpec \<Rightarrow> unit prog" where
  "deploy_instance sys root_dir priv_key nginx_mode server_ips inst =
     bind (lift (json_get server_ips (inst_name inst))) (\<lambda>addr.
       case addr of
         None \<Rightarrow> return ()
       | Some a \<Rightarrow>
           if \<not> json_truthy a \<or> workloads inst = [] then return ()
           else (case a of
                   JStr ip_addr \<Rightarrow>
                     seq (emit (Print ('' Configuring '' @ inst_name inst @ '' ('' @ ip_addr @ '')...'')))
                       (case load_private_key sys priv_key of
                          Some e \<Rightarrow> raise e
                        | None \<Rightarrow>
                            (let d = \<lparr>ip = ip_addr, user = ''root'', local_root = Some root_dir,
                                      client = remote_at sys ip_addr\<rparr>
                             in if nginx_mode \<in> {''combined'', ''single'', ''shared''}
                                then seq (deploy_each sys d False (workloads inst))
                                       (configure_combined_nginx (host sys) d (workloads inst))
                                else deploy_each sys d True (workloads inst)))
                 | _ \<Rightarrow> raise (PyException ''server address is not a string'')))"

fun deploy_instances ::
  "system \<Rightarrow> string \<Rightarrow> string \<Rightarrow> string \<Rightarrow> json \<Rightarrow> InstanceSpec list \<Rightarrow> unit prog" where
  "deploy_instances sys root_dir priv_key nginx_mode server_ips [] = return ()"
| "deploy_instances sys root_dir priv_key nginx_mode server_ips (inst # insts) =
     seq (deploy_instance sys root_dir priv_key nginx_mode server_ips inst)
         (deploy_instances sys root_dir priv_key nginx_mode server_ips insts)"

text \<open>
  Lines 47 to 100, from the lookup of the provisioning tool on: \<open>init\<close> with
  \<open>check=True\<close>, \<open>apply\<close> with its return code inspected, the outputs, the deployment.
\<close>

definition init_argv :: "string \<Rightarrow> string list" where
  "init_argv tf_bin = [tf_bin, ''init'', ''-input=false'', ''-upgrade'']"

definition apply_argv :: "string \<Rightarrow> bool \<Rightarrow> string list" where
  "apply_argv tf_bin auto_approve = [tf_bin, ''apply''] @ (if auto_approve then [''-auto-approve''] else [])"

definition output_argv :: "string \<Rightarrow> string list" where
  "output_argv tf_bin = [tf_bin, ''output'', ''-json'']"

definition provision_and_deploy ::
  "system \<Rightarrow> string \<Rightarrow> DesiredStateSpec \<Rightarrow> bool \<Rightarrow> string \<Rightarrow> string \<Rightarrow> string \<Rightarrow> int prog" where
  "provision_and_deploy sys root_dir new_spec auto_approve terraform_bin priv_key pub_key =
     (case which sys terraform_bin of
        None \<Rightarrow> raise (FileNotFoundError (''Terraform binary '' @ [CHR 0x27] @ terraform_bin @
                                          [CHR 0x27] @ '' not found in PATH''))
      | Some tf_bin \<Rightarrow>
         (let tf_dir = terraform_dir root_dir; env = tf_env sys pub_key in
          bind (run_tool sys (init_argv tf_bin) tf_dir env) (\<lambda>init_result.
            if fst init_result \<noteq> 0
            then raise (CalledProcessError (fst init_result) (init_argv tf_bin))
            else
              bind (run_tool sys (apply_argv tf_bin auto_approve) tf_dir env) (\<lambda>result.
                if fst result \<noteq> 0 then return (fst result)
                else
                  bind (run_tool sys (output_argv tf_bin) tf_dir env) (\<lambda>out_result.
                    if fst out_result \<noteq> 0
                    then raise (CalledProcessError (fst out_result) (output_argv tf_bin))
                    else
                      bind (lift (server_ips_of sys (snd out_result))) (\<lambda>server_ips.
                        seq (emit (Print ''Deploying Applications...''))
                       (seq (deploy_instances sys root_dir priv_key (nginx_mode_of sys) server_ips
                               (instances new_spec))
                            (return 0))))))))"

text \<open>
  \<open>apply_plan\<close>.  The generator's \<open>project_id\<close> and \<open>workspace_id\<close> arguments are
  not read by the Hetzner generator.
\<close>

definition apply_plan ::
  "system \<Rightarrow> string \<Rightarrow> string \<Rightarrow> bool \<Rightarrow> string \<Rightarrow> string \<Rightarrow> string \<Rightarrow> int prog" where
  "apply_plan sys root_dir plan_path auto_approve terraform_bin project_id workspace_id =
     bind (lift (load_new_spec sys plan_path)) (\<lambda>new_spec.
       seq (emit (Mkdir (cloudhand_dir root_dir)))
      (seq (emit (WriteFile (cloudhand_dir root_dir @ ''/spec.json'') (model_dump_json sys new_spec)))
      (bind (lift (get_generator (provider new_spec))) (\<lambda>generator.
       seq (generator new_spec (terraform_dir root_dir))
      (seq (emit (Print ''Fetching SSH Identity...''))
      (bind (fetch_key sys project_id) (\<lambda>keys.
         provision_and_deploy sys root_dir new_spec auto_approve terraform_bin (fst keys) (snd keys))))))))"

section \<open>Concrete scenarios\<close>

text \<open>
  A host whose transport is up and which answers every command with exit status 128 and
  a git error on standard error.
\<close>

definition refusing_remote :: remote where
  "refusing_remote =
     \<lparr>transport_active = (\<lambda>_. True), connect_ok = (\<lambda>_. True),
      exec_command = (\<lambda>_ _. Inr \<lparr>exit_code = 128, stdout = [],
                                   stderr = ''fatal: repository not found'' @ NL\<rparr>),
      sftp_write = (\<lambda>_ _ _. None)\<rparr>"

definition refusing_deployer :: deployer where
  "refusing_deployer =
     \<lparr>ip = ''203.0.113.7'', user = ''root'', local_root = None, client = refusing_remote\<rparr>"

text \<open>
  A host with an existing checkout on which the fetch fails (exit status 1) and every
  other command succeeds; and a local machine with \<open>GITHUB_TOKEN\<close> set.
\<close>

definition stale_remote :: remote where
  "stale_remote =
     \<lparr>transport_active = (\<lambda>_. True), connect_ok = (\<lambda>_. True),
      exec_command = (\<lambda>_ cmd.
         if contains ''fetch origin'' cmd
         then Inr \<lparr>exit_code = 1, stdout = [], stderr = ''error: cannot lock ref''\<rparr>
         else Inr \<lparr>exit_code = 0, stdout = [], stderr = []\<rparr>),
      sftp_write = (\<lambda>_ _ _. None)\<rparr>"

definition stale_deployer :: deployer where
  "stale_deployer =
     \<lparr>ip = ''203.0.113.7'', user = ''root'', local_root = None, client = stale_remote\<rparr>"

definition token_host :: localhost where
  "token_host =
     \<lparr>getenv = (\<lambda>v. if v = ''GITHUB_TOKEN'' then Some ''ghp_s3cr3t'' else None),
      resolve_local_path = (\<lambda>_ p. p), read_text = (\<lambda>_. None)\<rparr>"

definition bare_host :: localhost where
  "bare_host = \<lparr>getenv = (\<lambda>_. None), resolve_local_path = (\<lambda>_ p. p), read_text = (\<lambda>_. None)\<rparr>"

definition shop_app :: ApplicationSpec where
  "shop_app =
     \<lparr>name = ''shop'', repo_url = ''https://github.com/acme/shop'', branch = ''main'',
      runtime = PYTHON,
      build_config = \<lparr>install_command = None, build_command = None, system_packages = []\<rparr>,
      service_config = \<lparr>command = ''python3 app.py'', environment = [], environment_file = None,
        environment_file_upload = None, ports = [8000], server_names = [], https = False\<rparr>,
      destination_path = ''/opt/apps''\<rparr>"

text \<open>
  Graphs: two networks and a server with an \<open>in_network\<close> edge to each, plus a second
  server in another region; and a graph whose only network carries the id
  \<open>synthetic:default\<close>, next to a server with no edge.
\<close>

definition mk_node :: "string \<Rightarrow> NodeType \<Rightarrow> string \<Rightarrow> string option \<Rightarrow> Node" where
  "mk_node i t n r =
     \<lparr>node_id = i, node_type = t, node_name = Some n, node_region = r, zone = None,
      node_provider = Some ''hetzner'', provider_native_id = None, node_labels = [], attrs = []\<rparr>"

definition two_network_graph :: CloudGraph where
  "two_network_graph =
     \<lparr>nodes = [mk_node ''hetzner:network:1'' NETWORK ''alpha'' None,
               mk_node ''hetzner:network:2'' NETWORK ''beta'' None,
               mk_node ''hetzner:server:1'' COMPUTE_INSTANCE ''web'' (Some ''nbg1''),
               mk_node ''hetzner:server:2'' COMPUTE_INSTANCE ''db'' (Some ''fsn1'')],
      edges = [\<lparr>from_id = ''hetzner:server:1'', to_id = ''hetzner:network:1'', edge_type = IN_NETWORK\<rparr>,
               \<lparr>from_id = ''hetzner:server:1'', to_id = ''hetzner:network:2'', edge_type = IN_NETWORK\<rparr>]\<rparr>"

definition collision_graph :: CloudGraph where
  "collision_graph =
     \<lparr>nodes = [mk_node ''synthetic:default'' NETWORK ''lan'' None,
               mk_node ''hetzner:server:1'' COMPUTE_INSTANCE ''web'' None],
      edges = []\<rparr>"

definition empty_spec :: DesiredStateSpec where
  "empty_spec =
     \<lparr>provider = ''hetzner'', region = None,
      networks = [\<lparr>net_name = ''app-net'', cidr = ''10.0.0.0/16''\<rparr>], instances = [],
      load_balancers = [], firewalls = [], dns_records = [], containers = []\<rparr>"

text \<open>Workload lists for the combined reverse-proxy site.\<close>

definition mk_app :: "string \<Rightarrow> int list \<Rightarrow> ApplicationSpec" where
  "mk_app n ps =
     \<lparr>name = n, repo_url = ''https://github.com/acme/'' @ n, branch = ''main'', runtime = PYTHON,
      build_config = \<lparr>install_command = None, build_command = None, system_packages = []\<rparr>,
      service_config = \<lparr>command = ''./run'', environment = [], environment_file = None,
        environment_file_upload = None, ports = ps, server_names = [], https = False\<rparr>,
      destination_path = ''/opt/apps''\<rparr>"

definition four_apps :: "ApplicationSpec list" where
  "four_apps = [mk_app ''web'' [3000], mk_app ''worker'' [], mk_app ''Admin-UI'' [4000, 4001],
                mk_app ''my-api'' [8000]]"

definition two_apps :: "ApplicationSpec list" where
  "two_apps = [mk_app ''worker'' [], mk_app ''api'' [8000]]"

text \<open>
  A machine for \<open>apply_plan\<close>: one plan file, whose parsed content is given; a
  validator that asks for a string \<open>provider\<close> only; a provisioning tool whose
  \<open>init\<close> and \<open>apply\<close> steps end with the given return codes.
\<close>

definition plan_json :: json where
  "plan_json = JObj [(''operations'', JArr []),
                     (''new_spec'', JObj [(''provider'', JStr ''hetzner''), (''instances'', JArr [])])]"

definition demo_validate :: "json \<Rightarrow> string + DesiredStateSpec" where
  "demo_validate j =
     (case j of
        JObj kvs \<Rightarrow>
          (case map_of kvs ''provider'' of
             Some (JStr p) \<Rightarrow> Inr \<lparr>provider = p, region = None, networks = [], instances = [],
                                  load_balancers = [], firewalls = [], dns_records = [], containers = []\<rparr>
           | Some _ \<Rightarrow> Inl ''provider: Input should be a valid string''
           | None \<Rightarrow> Inl ''provider: Field required'')
      | _ \<Rightarrow> Inl ''Input should be a valid dictionary or instance of DesiredStateSpec'')"

definition demo_system :: "json \<Rightarrow> int \<Rightarrow> int \<Rightarrow> system" where
  "demo_system plan init_rc apply_rc =
     \<lparr>host = \<lparr>getenv = (\<lambda>_. None), resolve_local_path = (\<lambda>_ p. p),
               read_text = (\<lambda>p. if p = ''/srv/shop/cloudhand/plan-1.json'' then Some ''PLAN'' else None)\<rparr>,
      json_loads = (\<lambda>t. if t = ''PLAN'' then Inr plan else Inl (JSONDecodeError ''Expecting value'')),
      model_validate_spec = demo_validate,
      model_dump_json = (\<lambda>_. ''SPEC''),
      project_ssh_key = (\<lambda>_ _. Inr (''PRIVATE KEY'', ''ssh-rsa AAAA'')),
      which = (\<lambda>b. Some (''/usr/bin/'' @ b)),
      subprocess = (\<lambda>_ argv. if ''init'' \<in> set argv then (init_rc, [])
                      else if ''apply'' \<in> set argv then (apply_rc, []) else (0, ''{}'')),
      load_private_key = (\<lambda>_. None),
      remote_at = (\<lambda>_. refusing_remote),
      format_runtime = runtime_str\<rparr>"

definition demo_spec :: DesiredStateSpec where
  "demo_spec = \<lparr>provider = ''hetzner'', region = None, networks = [], instances = [],
                 load_balancers = [], firewalls = [], dns_records = [], containers = []\<rparr>"


text \<open>A host that answers every command with exit status 0.\<close>

definition compliant_remote :: remote where
  "compliant_remote =
     \<lparr>transport_active = (\<lambda>_. True), connect_ok = (\<lambda>_. True),
      exec_command = (\<lambda>_ _. Inr \<lparr>exit_code = 0, stdout = [], stderr = []\<rparr>),
      sftp_write = (\<lambda>_ _ _. None)\<rparr>"

definition compliant_deployer :: deployer where
  "compliant_deployer =
     \<lparr>ip = ''203.0.113.7'', user = ''root'', local_root = None, client = compliant_remote\<rparr>"

section \<open>Predicates used in the statements\<close>

text \<open>A program only ever appends to the trace.\<close>

definition extends :: "'a prog \<Rightarrow> bool" where
  "extends p = (\<forall>tr. \<exists>rest. snd (p tr) = tr @ rest)"

text \<open>
  Node kinds, the network name the compiler resolves for a node, the \<open>InstanceSpec\<close>
  it emits for it, the names held by a \<open>networks\<close> dictionary, and the invariant of the
  third loop used below.
\<close>

definition is_network :: "Node \<Rightarrow> bool" where
  "is_network n = (node_type n = NETWORK)"

definition is_compute :: "Node \<Rightarrow> bool" where
  "is_compute n = (node_type n = COMPUTE_INSTANCE)"

definition resolved_network :: "(string \<times> string) list \<Rightarrow> Node \<Rightarrow> string" where
  "resolved_network server_network node =
     (case map_of server_network (node_id node) of None \<Rightarrow> ''default'' | Some n \<Rightarrow> n)"

definition instance_of :: "(string \<times> string) list \<Rightarrow> Node \<Rightarrow> InstanceSpec" where
  "instance_of sn node =
     \<lparr>inst_name = str_or (node_name node) (node_id node),
      inst_size = str_or (map_of (attrs node) ''server_type'') ''cx21'',
      network = resolved_network sn node, inst_region = node_region node,
      inst_labels = node_labels node, workloads = [], maintenance = None\<rparr>"

text \<open>The non-empty regions of the \<open>ComputeInstance\<close> nodes, in node order.\<close>

definition observed_regions :: "Node list \<Rightarrow> string list" where
  "observed_regions ns =
     map (\<lambda>n. the (node_region n)) (filter (\<lambda>n. is_compute n \<and> truthy (node_region n)) ns)"

definition net_names :: "(string \<times> NetworkSpec) list \<Rightarrow> string set" where
  "net_names nets = (\<lambda>(k, n). net_name n) ` set nets"

definition covered ::
  "(string \<times> string) list \<Rightarrow> (string \<times> NetworkSpec) list \<times> string list \<times> InstanceSpec list \<Rightarrow> bool" where
  "covered sn st =
     (case st of (nets, regs, insts) \<Rightarrow>
        snd ` set sn \<subseteq> net_names nets \<and>
        network ` set insts \<subseteq> net_names nets \<and>
        (''synthetic:default'' \<in> fst ` set nets \<longrightarrow> ''default'' \<in> net_names nets))"

text \<open>
  The words of the routing rule: a workload is the UI when its lower-cased name contains
  \<open>ui\<close>; a workload that is not at the root is served under \<open>/api/\<close> when its
  lower-cased name contains \<open>api\<close> and under \<open>/<name>/\<close> otherwise.
\<close>

definition is_ui :: "ApplicationSpec \<Rightarrow> bool" where
  "is_ui a = contains ''ui'' (lower (name a))"

definition route_prefix :: "ApplicationSpec \<Rightarrow> string" where
  "route_prefix a = (if contains ''api'' (lower (name a)) then ''/api/'' else ''/'' @ name a @ ''/'')"

text \<open>
  The trace of \<open>apply_plan\<close> once the spec is persisted, the Terraform files are
  generated and the SSH key is fetched.
\<close>

definition prepared :: "system \<Rightarrow> string \<Rightarrow> DesiredStateSpec \<Rightarrow> string \<Rightarrow> action list \<Rightarrow> action list" where
  "prepared sys root_dir spec project_id tr =
     snd (generate spec (terraform_dir root_dir)
            (tr @ [Mkdir (cloudhand_dir root_dir),
                   WriteFile (cloudhand_dir root_dir @ ''/spec.json'') (model_dump_json sys spec)])) @
     [Print ''Fetching SSH Identity...'', KeyStore project_id]"

text \<open>
  Every entry of a \<open>networks\<close> dictionary is a scanned one or has the placeholder
  CIDR; an id with at least two colons, as the scheme \<open><provider>:<kind>:<native_id>\<close>
  gives.
\<close>

definition placeholder_only ::
  "(string \<times> NetworkSpec) list \<Rightarrow> (string \<times> NetworkSpec) list \<Rightarrow> bool" where
  "placeholder_only nets0 nets =
     (\<forall>kn \<in> set nets. kn \<in> set nets0 \<or> cidr (snd kn) = ''10.0.0.0/24'')"

definition provider_prefixed :: "string \<Rightarrow> bool" where
  "provider_prefixed i = (2 \<le> count_list i (CHR '':''))"



section \<open>Verified properties\<close>

lemma extendsI: "(\<And>tr. \<exists>rest. snd (p tr) = tr @ rest) \<Longrightarrow> extends p"
  by (simp add: extends_def)

lemma extendsD: "extends p \<Longrightarrow> \<exists>rest. snd (p tr) = tr @ rest"
  by (simp add: extends_def)

lemma extends_return: "extends (return x)"
  by (simp add: extends_def return_def)

lemma extends_raise: "extends (raise e)"
  by (simp add: extends_def raise_def)

lemma extends_emit: "extends (emit a)"
  by (simp add: extends_def emit_def)

lemma extends_bind:
  assumes m: "extends m" and f: "\<And>x. extends (f x)"
  shows "extends (bind m f)"
proof (rule extendsI)
  fix tr
  obtain r tr1 where mt: "m tr = (r, tr1)" by (cases "m tr")
  from extendsD [OF m, of tr] mt obtain rest1 where tr1: "tr1 = tr @ rest1" by auto
  show "\<exists>rest. snd (bind m f tr) = tr @ rest"
  proof (cases r)
    case (Inl e)
    with mt tr1 show ?thesis by (simp add: bind_def)
  next
    case (Inr x)
    from extendsD [OF f, of x tr1] obtain rest2 where "snd (f x tr1) = tr1 @ rest2" by auto
    with Inr mt tr1 show ?thesis by (simp add: bind_def)
  qed
qed

lemma extends_seq: "extends m \<Longrightarrow> extends k \<Longrightarrow> extends (seq m k)"
  by (simp add: seq_def extends_bind)

lemma extends_if: "extends p \<Longrightarrow> extends q \<Longrightarrow> extends (if b then p else q)"
  by simp

lemma connect_loop_extends: "\<exists>rest. snd (connect_loop d n tr) = tr @ rest"
proof (induction n arbitrary: tr)
  case 0
  show ?case by simp
next
  case (Suc n)
  from Suc [of "tr @ [Connect (ip d), Sleep 5]"] show ?case by auto
qed

lemma extends_ensure_transport: "extends (ensure_transport d)"
  by (rule extendsI) (simp add: ensure_transport_def connect_def connect_loop_extends)

lemma extends_exec: "extends (exec d cmd)"
  by (simp add: extends_def exec_def)

lemma extends_run: "extends (run d cmd cwd secrets)"
  unfolding run_def Let_def
  by (intro extends_seq extends_bind extends_ensure_transport extends_emit extends_exec
      extends_if extends_raise extends_return)

text \<open>
  With a live transport, \<open>run\<close> prints the masked command, executes the unmasked one and
  leaves both on the trace, whatever the command answers.
\<close>

lemma run_alive_trace:
  assumes "transport_active (client d) tr"
  shows "snd (run d cmd cwd secrets tr) =
           tr @ [Print (''['' @ ip d @ ''] Running: '' @ mask_cmd secrets (final_command cmd cwd)),
                 Exec (ip d) (final_command cmd cwd)]"
  using assms
  by (simp add: run_def seq_def bind_def ensure_transport_def emit_def exec_def Let_def
      raise_def return_def split: sum.splits)

subsection \<open>\<open>ServerDeployer.run\<close>: what a failed command puts in the exception\<close>

text \<open>
  C1.  The claim: when a command run with a non-empty mask list exits non-zero, the
  error raised embeds the command and stderr with every masked secret replaced, so the
  secret never appears in the message.  The code computes the masked \<open>display_cmd\<close>
  and prints it, but builds the exception from the unmasked \<open>final_cmd\<close>.  Evaluated
  on a failing \<open>git clone\<close> whose URL embeds the token \<open>ghp_s3cr3t\<close>, with that token
  in the mask list: the printed line is masked, the exception message contains the
  token.
\<close>

theorem run_error_embeds_unmasked_command:
  "run refusing_deployer
       ''git clone --branch main https://ghp_s3cr3t@github.com/acme/shop /opt/apps/shop''
       None (Some [''ghp_s3cr3t'']) []
     = (Inl (PyException
          (''Command failed: git clone --branch main https://ghp_s3cr3t@github.com/acme/shop /opt/apps/shop''
            @ NL @ ''Error: fatal: repository not found'')),
        [Print ''[203.0.113.7] Running: git clone --branch main https://***@github.com/acme/shop /opt/apps/shop'',
         Exec ''203.0.113.7''
           ''git clone --branch main https://ghp_s3cr3t@github.com/acme/shop /opt/apps/shop''])
   \<and> contains ''ghp_s3cr3t''
         (''Command failed: git clone --branch main https://ghp_s3cr3t@github.com/acme/shop /opt/apps/shop''
            @ NL @ ''Error: fatal: repository not found'')"
  by code_simp

subsection \<open>\<open>ServerDeployer.deploy\<close>: the git-sync step\<close>

lemma run_alive_ok:
  assumes "transport_active (client d) tr"
      and "exec_command (client d)
             (tr @ [Print (''['' @ ip d @ ''] Running: '' @ mask_cmd secrets (final_command cmd cwd))])
             (final_command cmd cwd) = Inr r"
      and "exit_code r = 0"
  shows "run d cmd cwd secrets tr =
           (Inr (strip (stdout r)),
            tr @ [Print (''['' @ ip d @ ''] Running: '' @ mask_cmd secrets (final_command cmd cwd)),
                  Exec (ip d) (final_command cmd cwd)])"
  using assms
  by (simp add: run_def seq_def bind_def ensure_transport_def emit_def exec_def Let_def return_def)

text \<open>
  C10.  In the git-sync step of \<open>deploy\<close>, when the checkout exists (\<open>test -d\<close>
  succeeds) and the fetch-and-hard-reset command fails with any error \<open>e\<close> (a non-zero
  exit status, an SSH error or a failed reconnect), the error \<open>e\<close> is dropped and the
  step goes on, from the trace reached, with \<open>rm -rf\<close> of the application directory,
  \<open>mkdir -p\<close> of the destination path and \<open>git clone\<close> of the branch into the
  application directory (with the token in the URL and masked in the log when one is
  set); \<open>deploy\<close> then continues with the build, the service and the site.  When the
  transport is up and the three commands exit with status 0, the step succeeds and the
  trace is extended by exactly these three commands.
\<close>

theorem git_sync_failure_reclones:
  assumes deps: "deploy_system_deps d app tr0 = (Inr (), tr)"
      and existing: "run d (''test -d '' @ destination_path app @ ''/'' @ name app) None None tr = (Inr out, tr1)"
      and failing: "run d (fetch_cmd_of (gh_token_of h) app) (Some (destination_path app @ ''/'' @ name app))
                      (token_mask (gh_token_of h)) tr1 = (Inl e, tr2)"
      and dir: "app_dir = destination_path app @ ''/'' @ name app"
      and url: "clone_url = (if gh_token_of h \<noteq> []
                             then py_replace ''https://'' (''https://'' @ gh_token_of h @ ''@'') (repo_url app)
                             else repo_url app)"
      and secrets: "secrets = (if gh_token_of h \<noteq> [] then Some [gh_token_of h] else None)"
      and rm: "rm_cmd = ''rm -rf '' @ app_dir"
      and mk: "mkdir_cmd = ''mkdir -p '' @ destination_path app"
      and cl: "clone_cmd = ''git clone --branch '' @ branch app @ '' '' @ clone_url @ '' '' @ app_dir"
  shows "deploy_git_sync h d app tr =
           seq (run d rm_cmd None None)
          (seq (run d mkdir_cmd None None)
          (seq (run d clone_cmd None secrets)
               (return ()))) tr2 \<and>
         deploy h d app with_nginx tr0 =
           seq (run d rm_cmd None None)
          (seq (run d mkdir_cmd None None)
          (seq (run d clone_cmd None secrets)
          (seq (deploy_build d app)
          (seq (configure_systemd h d app app_dir)
               (if with_nginx then configure_nginx h d app else return ()))))) tr2 \<and>
         (\<forall>rm_reply mkdir_reply clone_reply t_rm t_mkdir.
            t_rm = tr2 @ [Print (''['' @ ip d @ ''] Running: '' @ rm_cmd), Exec (ip d) rm_cmd] \<and>
            t_mkdir = t_rm @ [Print (''['' @ ip d @ ''] Running: '' @ mkdir_cmd), Exec (ip d) mkdir_cmd] \<and>
            transport_active (client d) tr2 \<and>
            exec_command (client d) (tr2 @ [Print (''['' @ ip d @ ''] Running: '' @ rm_cmd)]) rm_cmd = Inr rm_reply \<and>
            exit_code rm_reply = 0 \<and>
            transport_active (client d) t_rm \<and>
            exec_command (client d) (t_rm @ [Print (''['' @ ip d @ ''] Running: '' @ mkdir_cmd)]) mkdir_cmd = Inr mkdir_reply \<and>
            exit_code mkdir_reply = 0 \<and>
            transport_active (client d) t_mkdir \<and>
            exec_command (client d)
              (t_mkdir @ [Print (''['' @ ip d @ ''] Running: '' @ mask_cmd secrets clone_cmd)]) clone_cmd = Inr clone_reply \<and>
            exit_code clone_reply = 0 \<longrightarrow>
            deploy_git_sync h d app tr =
              (Inr (), t_mkdir @ [Print (''['' @ ip d @ ''] Running: '' @ mask_cmd secrets clone_cmd),
                             Exec (ip d) clone_cmd]))"
proof -
  have ad: "app_dir_of app = app_dir" by (simp add: app_dir_of_def dir)
  have cu: "clone_url_of (gh_token_of h) app = clone_url" by (simp add: clone_url_of_def url)
  have tm: "token_mask (gh_token_of h) = secrets" by (simp add: token_mask_def secrets)
  have re: "reclone h d app =
              seq (run d rm_cmd None None)
             (seq (run d mkdir_cmd None None)
             (seq (run d clone_cmd None secrets) (return ())))"
    by (simp add: reclone_def Let_def ad cu tm rm mk cl)
  have sync: "deploy_git_sync h d app tr = reclone h d app tr2"
    using existing failing
    by (simp add: deploy_git_sync_def try_except_def fetch_reset_def seq_def bind_def Let_def
        app_dir_of_def)
  have one: "deploy_git_sync h d app tr =
           seq (run d rm_cmd None None)
          (seq (run d mkdir_cmd None None)
          (seq (run d clone_cmd None secrets) (return ()))) tr2"
    using sync by (simp only: re)
  have seq_assoc: "seq (seq a (seq b (seq c (return ())))) k t = seq a (seq b (seq c k)) t"
    for a b c :: "string prog" and k :: "unit prog" and t
    by (simp add: seq_def bind_def return_def split: prod.splits sum.splits)
  have "deploy h d app with_nginx tr0 =
          seq (deploy_git_sync h d app)
            (seq (deploy_build d app)
            (seq (configure_systemd h d app app_dir)
                 (if with_nginx then configure_nginx h d app else return ()))) tr"
    using deps by (simp add: deploy_def seq_def bind_def ad)
  also have "\<dots> =
          seq (seq (run d rm_cmd None None)
                (seq (run d mkdir_cmd None None)
                (seq (run d clone_cmd None secrets) (return ()))))
            (seq (deploy_build d app)
            (seq (configure_systemd h d app app_dir)
                 (if with_nginx then configure_nginx h d app else return ()))) tr2"
    using one by (simp add: seq_def bind_def)
  also have "\<dots> =
           seq (run d rm_cmd None None)
          (seq (run d mkdir_cmd None None)
          (seq (run d clone_cmd None secrets)
          (seq (deploy_build d app)
          (seq (configure_systemd h d app app_dir)
               (if with_nginx then configure_nginx h d app else return ()))))) tr2"
    by (rule seq_assoc)
  finally have two: "deploy h d app with_nginx tr0 =
           seq (run d rm_cmd None None)
          (seq (run d mkdir_cmd None None)
          (seq (run d clone_cmd None secrets)
          (seq (deploy_build d app)
          (seq (configure_systemd h d app app_dir)
               (if with_nginx then configure_nginx h d app else return ()))))) tr2" .
  have three: "deploy_git_sync h d app tr =
              (Inr (), t_mkdir @ [Print (''['' @ ip d @ ''] Running: '' @ mask_cmd secrets clone_cmd),
                             Exec (ip d) clone_cmd])"
    if t_rm: "t_rm = tr2 @ [Print (''['' @ ip d @ ''] Running: '' @ rm_cmd), Exec (ip d) rm_cmd]"
    and t_mkdir: "t_mkdir = t_rm @ [Print (''['' @ ip d @ ''] Running: '' @ mkdir_cmd), Exec (ip d) mkdir_cmd]"
    and a1: "transport_active (client d) tr2"
    and e1: "exec_command (client d) (tr2 @ [Print (''['' @ ip d @ ''] Running: '' @ rm_cmd)]) rm_cmd = Inr rm_reply"
    and x1: "exit_code rm_reply = 0"
    and a2: "transport_active (client d) t_rm"
    and e2: "exec_command (client d) (t_rm @ [Print (''['' @ ip d @ ''] Running: '' @ mkdir_cmd)]) mkdir_cmd = Inr mkdir_reply"
    and x2: "exit_code mkdir_reply = 0"
    and a3: "transport_active (client d) t_mkdir"
    and e3: "exec_command (client d)
              (t_mkdir @ [Print (''['' @ ip d @ ''] Running: '' @ mask_cmd secrets clone_cmd)]) clone_cmd = Inr clone_reply"
    and x3: "exit_code clone_reply = 0"
    for rm_reply mkdir_reply clone_reply t_rm t_mkdir
  proof -
    have fc: "final_command c None = c" for c by (simp add: final_command_def)
    have mc: "mask_cmd None c = c" for c by (simp add: mask_cmd_def)
    have s1: "run d rm_cmd None None tr2 = (Inr (strip (stdout rm_reply)), t_rm)"
      using run_alive_ok [of d tr2 None rm_cmd None rm_reply] a1 e1 x1 by (simp add: fc mc t_rm)
    have s2: "run d mkdir_cmd None None t_rm = (Inr (strip (stdout mkdir_reply)), t_mkdir)"
      using run_alive_ok [of d t_rm None mkdir_cmd None mkdir_reply] a2 e2 x2 by (simp add: fc mc t_mkdir)
    have s3: "run d clone_cmd None secrets t_mkdir =
                (Inr (strip (stdout clone_reply)),
                 t_mkdir @ [Print (''['' @ ip d @ ''] Running: '' @ mask_cmd secrets clone_cmd),
                       Exec (ip d) clone_cmd])"
      using run_alive_ok [of d t_mkdir secrets clone_cmd None clone_reply] a3 e3 x3 by (simp add: fc)
    show ?thesis
      unfolding one by (simp add: seq_def bind_def return_def s1 s2 s3)
  qed
  from one two three show ?thesis by blast
qed

theorem git_sync_failure_reclones_witness:
  \<open>deploy_system_deps stale_deployer shop_app [] = (Inr (), []) \<and>
   run stale_deployer ''test -d /opt/apps/shop'' None None [] =
     (Inr [],
      [Print ''[203.0.113.7] Running: test -d /opt/apps/shop'',
       Exec ''203.0.113.7'' ''test -d /opt/apps/shop'']) \<and>
   fst (run stale_deployer (fetch_cmd_of (gh_token_of token_host) shop_app) (Some ''/opt/apps/shop'')
         (token_mask (gh_token_of token_host))
         [Print ''[203.0.113.7] Running: test -d /opt/apps/shop'',
          Exec ''203.0.113.7'' ''test -d /opt/apps/shop'']) =
     Inl (PyException
       (''Command failed: cd /opt/apps/shop && git -c http.extraheader="Authorization: Bearer ghp_s3cr3t" fetch origin && git -c http.extraheader="Authorization: Bearer ghp_s3cr3t" reset --hard origin/main''
         @ NL @ ''Error: error: cannot lock ref'')) \<and>
   deploy_git_sync token_host stale_deployer shop_app [] =
     (Inr (),
      [Print ''[203.0.113.7] Running: test -d /opt/apps/shop'',
       Exec ''203.0.113.7'' ''test -d /opt/apps/shop'',
       Print ''[203.0.113.7] Running: cd /opt/apps/shop && git -c http.extraheader="Authorization: Bearer ***" fetch origin && git -c http.extraheader="Authorization: Bearer ***" reset --hard origin/main'',
       Exec ''203.0.113.7'' ''cd /opt/apps/shop && git -c http.extraheader="Authorization: Bearer ghp_s3cr3t" fetch origin && git -c http.extraheader="Authorization: Bearer ghp_s3cr3t" reset --hard origin/main'',
       Print ''[203.0.113.7] Running: rm -rf /opt/apps/shop'',
       Exec ''203.0.113.7'' ''rm -rf /opt/apps/shop'',
       Print ''[203.0.113.7] Running: mkdir -p /opt/apps'',
       Exec ''203.0.113.7'' ''mkdir -p /opt/apps'',
       Print ''[203.0.113.7] Running: git clone --branch main https://***@github.com/acme/shop /opt/apps/shop'',
       Exec ''203.0.113.7'' ''git clone --branch main https://ghp_s3cr3t@github.com/acme/shop /opt/apps/shop''])\<close>
proof -
  let ?d = stale_deployer
  let ?ok = "\<lparr>exit_code = 0, stdout = [], stderr = []\<rparr>"
  let ?tr1 = "[Print ''[203.0.113.7] Running: test -d /opt/apps/shop'',
               Exec ''203.0.113.7'' ''test -d /opt/apps/shop'']"
  let ?tr2 = \<open>?tr1 @
       [Print ''[203.0.113.7] Running: cd /opt/apps/shop && git -c http.extraheader="Authorization: Bearer ***" fetch origin && git -c http.extraheader="Authorization: Bearer ***" reset --hard origin/main'',
        Exec ''203.0.113.7'' ''cd /opt/apps/shop && git -c http.extraheader="Authorization: Bearer ghp_s3cr3t" fetch origin && git -c http.extraheader="Authorization: Bearer ghp_s3cr3t" reset --hard origin/main'']\<close>
  let ?e = \<open>PyException
       (''Command failed: cd /opt/apps/shop && git -c http.extraheader="Authorization: Bearer ghp_s3cr3t" fetch origin && git -c http.extraheader="Authorization: Bearer ghp_s3cr3t" reset --hard origin/main''
         @ NL @ ''Error: error: cannot lock ref'')\<close>
  have deps: "deploy_system_deps ?d shop_app [] = (Inr (), [])" by code_simp
  have existing: "run ?d (''test -d '' @ destination_path shop_app @ ''/'' @ name shop_app) None None [] =
                    (Inr [], ?tr1)"
    by code_simp
  have failing: "run ?d (fetch_cmd_of (gh_token_of token_host) shop_app)
                   (Some (destination_path shop_app @ ''/'' @ name shop_app))
                   (token_mask (gh_token_of token_host)) ?tr1 = (Inl ?e, ?tr2)"
    by code_simp
  note T = git_sync_failure_reclones [OF deps existing failing refl refl refl refl refl refl]
  have steps: \<open>seq (run ?d (''rm -rf '' @ destination_path shop_app @ ''/'' @ name shop_app) None None)
          (seq (run ?d (''mkdir -p '' @ destination_path shop_app) None None)
          (seq (run ?d
                 (''git clone --branch '' @ branch shop_app @ '' '' @
                  (if gh_token_of token_host \<noteq> []
                   then py_replace ''https://'' (''https://'' @ gh_token_of token_host @ ''@'') (repo_url shop_app)
                   else repo_url shop_app) @ '' '' @ destination_path shop_app @ ''/'' @ name shop_app)
                 None (if gh_token_of token_host \<noteq> [] then Some [gh_token_of token_host] else None))
               (return ()))) ?tr2 =
     (Inr (),
      [Print ''[203.0.113.7] Running: test -d /opt/apps/shop'',
       Exec ''203.0.113.7'' ''test -d /opt/apps/shop'',
       Print ''[203.0.113.7] Running: cd /opt/apps/shop && git -c http.extraheader="Authorization: Bearer ***" fetch origin && git -c http.extraheader="Authorization: Bearer ***" reset --hard origin/main'',
       Exec ''203.0.113.7'' ''cd /opt/apps/shop && git -c http.extraheader="Authorization: Bearer ghp_s3cr3t" fetch origin && git -c http.extraheader="Authorization: Bearer ghp_s3cr3t" reset --hard origin/main'',
       Print ''[203.0.113.7] Running: rm -rf /opt/apps/shop'',
       Exec ''203.0.113.7'' ''rm -rf /opt/apps/shop'',
       Print ''[203.0.113.7] Running: mkdir -p /opt/apps'',
       Exec ''203.0.113.7'' ''mkdir -p /opt/apps'',
       Print ''[203.0.113.7] Running: git clone --branch main https://***@github.com/acme/shop /opt/apps/shop'',
       Exec ''203.0.113.7'' ''git clone --branch main https://ghp_s3cr3t@github.com/acme/shop /opt/apps/shop''])\<close>
    by code_simp
  from T have "deploy_git_sync token_host ?d shop_app [] =
          seq (run ?d (''rm -rf '' @ destination_path shop_app @ ''/'' @ name shop_app) None None)
          (seq (run ?d (''mkdir -p '' @ destination_path shop_app) None None)
          (seq (run ?d
                 (''git clone --branch '' @ branch shop_app @ '' '' @
                  (if gh_token_of token_host \<noteq> []
                   then py_replace ''https://'' (''https://'' @ gh_token_of token_host @ ''@'') (repo_url shop_app)
                   else repo_url shop_app) @ '' '' @ destination_path shop_app @ ''/'' @ name shop_app)
                 None (if gh_token_of token_host \<noteq> [] then Some [gh_token_of token_host] else None))
               (return ()))) ?tr2"
    by (rule conjunct1)
  then have sync: \<open>deploy_git_sync token_host ?d shop_app [] =
     (Inr (),
      [Print ''[203.0.113.7] Running: test -d /opt/apps/shop'',
       Exec ''203.0.113.7'' ''test -d /opt/apps/shop'',
       Print ''[203.0.113.7] Running: cd /opt/apps/shop && git -c http.extraheader="Authorization: Bearer ***" fetch origin && git -c http.extraheader="Authorization: Bearer ***" reset --hard origin/main'',
       Exec ''203.0.113.7'' ''cd /opt/apps/shop && git -c http.extraheader="Authorization: Bearer ghp_s3cr3t" fetch origin && git -c http.extraheader="Authorization: Bearer ghp_s3cr3t" reset --hard origin/main'',
       Print ''[203.0.113.7] Running: rm -rf /opt/apps/shop'',
       Exec ''203.0.113.7'' ''rm -rf /opt/apps/shop'',
       Print ''[203.0.113.7] Running: mkdir -p /opt/apps'',
       Exec ''203.0.113.7'' ''mkdir -p /opt/apps'',
       Print ''[203.0.113.7] Running: git clone --branch main https://***@github.com/acme/shop /opt/apps/shop'',
       Exec ''203.0.113.7'' ''git clone --branch main https://ghp_s3cr3t@github.com/acme/shop /opt/apps/shop''])\<close>
    by (simp only: steps)
  have e1: "run ?d ''test -d /opt/apps/shop'' None None [] = (Inr [], ?tr1)" by code_simp
  have e2: "fst (run ?d (fetch_cmd_of (gh_token_of token_host) shop_app) (Some ''/opt/apps/shop'')
         (token_mask (gh_token_of token_host)) ?tr1) = Inl ?e"
    by code_simp
  from deps e1 e2 sync show ?thesis by (simp only: simp_thms)
qed

subsection \<open>\<open>graph_to_spec\<close>: the dictionaries and the loop\<close>

lemma build_networks_snoc:
  "build_networks (ns @ [n]) =
     (if node_type n = NETWORK then AList.update (node_id n) (network_of_node n) (build_networks ns)
      else build_networks ns)"
  by (simp add: build_networks_def)

lemma map_of_build_networks:
  "map_of (build_networks ns) k =
     (let fs = filter (\<lambda>n. node_type n = NETWORK \<and> node_id n = k) ns
      in if fs = [] then None else Some (network_of_node (last fs)))"
proof (induction ns rule: rev_induct)
  case Nil
  show ?case by (simp add: build_networks_def)
next
  case (snoc n ns)
  then show ?case
    by (simp add: build_networks_snoc update_conv' Let_def)
qed

lemma keys_build_networks:
  "k \<in> fst ` set (build_networks ns) \<longleftrightarrow> (\<exists>n \<in> set ns. node_type n = NETWORK \<and> node_id n = k)"
proof -
  have "k \<in> fst ` set (build_networks ns) \<longleftrightarrow> map_of (build_networks ns) k \<noteq> None"
    by (simp add: map_of_eq_None_iff)
  also have "\<dots> \<longleftrightarrow> filter (\<lambda>n. node_type n = NETWORK \<and> node_id n = k) ns \<noteq> []"
    by (simp add: map_of_build_networks Let_def)
  also have "\<dots> \<longleftrightarrow> (\<exists>n \<in> set ns. node_type n = NETWORK \<and> node_id n = k)"
    by (simp add: filter_empty_conv)
  finally show ?thesis .
qed

lemma build_server_network_snoc:
  "build_server_network nets (es @ [e]) =
     (if edge_type e = IN_NETWORK \<and> to_id e \<in> fst ` set nets
      then AList.update (from_id e) (net_name (the (map_of nets (to_id e)))) (build_server_network nets es)
      else build_server_network nets es)"
  by (simp add: build_server_network_def)

lemma map_of_build_server_network:
  "map_of (build_server_network nets es) s =
     (let fs = filter (\<lambda>e. edge_type e = IN_NETWORK \<and> to_id e \<in> fst ` set nets \<and> from_id e = s) es
      in if fs = [] then None else Some (net_name (the (map_of nets (to_id (last fs))))))"
proof (induction es rule: rev_induct)
  case Nil
  show ?case by (simp add: build_server_network_def)
next
  case (snoc e es)
  then show ?case
    by (simp add: build_server_network_snoc update_conv' Let_def)
qed

lemma instance_step_instances:
  "snd (snd (instance_step sn st n)) =
     snd (snd st) @ (if is_compute n then [instance_of sn n] else [])"
  by (cases st) (simp add: instance_step_def Let_def is_compute_def resolved_network_def instance_of_def)

lemma instance_step_regions:
  "set (fst (snd (instance_step sn st n))) =
     set (fst (snd st)) \<union>
     {r. node_type n = COMPUTE_INSTANCE \<and> node_region n = Some r \<and> r \<noteq> []}"
  by (cases st) (auto simp add: instance_step_def Let_def truthy_def set_add_def split: option.splits)

lemma instances_foldl:
  "snd (snd (foldl (instance_step sn) st ns)) =
     snd (snd st) @ map (instance_of sn) (filter is_compute ns)"
proof (induction ns arbitrary: st)
  case Nil
  show ?case by simp
next
  case (Cons n ns)
  show ?case
    by (simp only: foldl_Cons Cons instance_step_instances) simp
qed

lemma regions_foldl:
  "set (fst (snd (foldl (instance_step sn) st ns))) =
     set (fst (snd st)) \<union>
     {r. \<exists>n \<in> set ns. node_type n = COMPUTE_INSTANCE \<and> node_region n = Some r \<and> r \<noteq> []}"
proof (induction ns arbitrary: st)
  case Nil
  show ?case by simp
next
  case (Cons n ns)
  show ?case
    by (simp only: foldl_Cons Cons instance_step_regions) auto
qed

lemma graph_to_spec_instances:
  "instances (graph_to_spec first_of g prov) =
     map (instance_of (build_server_network (build_networks (nodes g)) (edges g)))
       (filter is_compute (nodes g))"
proof -
  let ?sn = "build_server_network (build_networks (nodes g)) (edges g)"
  let ?st = "(build_networks (nodes g), [], [])"
  obtain nets regs insts where R: "foldl (instance_step ?sn) ?st (nodes g) = (nets, regs, insts)"
    by (cases "foldl (instance_step ?sn) ?st (nodes g)") auto
  from instances_foldl [of ?sn ?st "nodes g"] R
  have "insts = map (instance_of ?sn) (filter is_compute (nodes g))" by simp
  with R show ?thesis by (simp add: graph_to_spec_def Let_def)
qed

lemma graph_to_spec_region:
  "\<exists>regs. set regs = {r. \<exists>n \<in> set (nodes g). node_type n = COMPUTE_INSTANCE \<and> node_region n = Some r \<and> r \<noteq> []}
     \<and> region (graph_to_spec first_of g prov) = (if regs \<noteq> [] then Some (first_of regs) else None)"
proof -
  let ?sn = "build_server_network (build_networks (nodes g)) (edges g)"
  let ?st = "(build_networks (nodes g), [], [])"
  obtain nets regs insts where R: "foldl (instance_step ?sn) ?st (nodes g) = (nets, regs, insts)"
    by (cases "foldl (instance_step ?sn) ?st (nodes g)") auto
  from regions_foldl [of ?sn ?st "nodes g"] R
  have "set regs = {r. \<exists>n \<in> set (nodes g). node_type n = COMPUTE_INSTANCE \<and> node_region n = Some r \<and> r \<noteq> []}"
    by simp
  moreover from R have "region (graph_to_spec first_of g prov) = (if regs \<noteq> [] then Some (first_of regs) else None)"
    by (simp add: graph_to_spec_def Let_def)
  ultimately show ?thesis by blast
qed

text \<open>
  C2.  The claim says that a server with several \<open>in_network\<close> edges to known networks
  gets the network name of the first such edge.  The second loop assigns
  \<open>server_network[edge.from_id]\<close> on every such edge, so the last one stays.  As
  amended: the instance emitted for the \<open>i\<close>-th \<open>ComputeInstance\<close> node carries the name
  (or, when the name is empty, the id) of the Network node that the last
  \<open>in_network\<close> edge from that server to a known network points to.
\<close>

theorem graph_to_spec_network_of_last_edge:
  assumes i: "i < length (filter is_compute (nodes g))"
      and node: "node = filter is_compute (nodes g) ! i"
      and es: "es = filter (\<lambda>e. edge_type e = IN_NETWORK \<and> from_id e = node_id node \<and>
                              (\<exists>n \<in> set (nodes g). is_network n \<and> node_id n = to_id e)) (edges g)"
      and some: "es \<noteq> []"
      and nw: "nw = last (filter (\<lambda>n. is_network n \<and> node_id n = to_id (last es)) (nodes g))"
  shows "length (instances (graph_to_spec first_of g prov)) = length (filter is_compute (nodes g)) \<and>
         inst_name (instances (graph_to_spec first_of g prov) ! i) = str_or (node_name node) (node_id node) \<and>
         network (instances (graph_to_spec first_of g prov) ! i) = str_or (node_name nw) (node_id nw)"
proof -
  let ?nets = "build_networks (nodes g)"
  let ?sn = "build_server_network ?nets (edges g)"
  have inst: "instances (graph_to_spec first_of g prov) ! i = instance_of ?sn node"
    using i node by (simp add: graph_to_spec_instances)
  have es': "es = filter (\<lambda>e. edge_type e = IN_NETWORK \<and> to_id e \<in> fst ` set ?nets \<and>
                              from_id e = node_id node) (edges g)"
    unfolding es by (rule filter_cong) (auto simp add: keys_build_networks is_network_def)
  have sn: "map_of ?sn (node_id node) = Some (net_name (the (map_of ?nets (to_id (last es)))))"
    using some by (simp add: map_of_build_server_network Let_def es' [symmetric])
  have "last es \<in> set es" using some by simp
  then have "to_id (last es) \<in> fst ` set ?nets" unfolding es' by simp
  then have ex: "filter (\<lambda>n. node_type n = NETWORK \<and> node_id n = to_id (last es)) (nodes g) \<noteq> []"
    by (simp add: keys_build_networks filter_empty_conv)
  have "map_of ?nets (to_id (last es)) = Some (network_of_node nw)"
    using ex by (simp add: map_of_build_networks Let_def nw is_network_def)
  with sn have "resolved_network ?sn node = net_name (network_of_node nw)"
    by (simp add: resolved_network_def)
  then show ?thesis
    using inst by (simp add: graph_to_spec_instances instance_of_def network_of_node_def)
qed

theorem graph_to_spec_network_of_last_edge_witness:
  "0 < length (filter is_compute (nodes two_network_graph)) \<and>
   length (filter (\<lambda>e. edge_type e = IN_NETWORK \<and> from_id e = ''hetzner:server:1'' \<and>
                     (\<exists>n \<in> set (nodes two_network_graph). is_network n \<and> node_id n = to_id e))
            (edges two_network_graph)) = 2 \<and>
   inst_name (instances (graph_to_spec hd two_network_graph ''hetzner'') ! 0) = ''web'' \<and>
   network (instances (graph_to_spec hd two_network_graph ''hetzner'') ! 0) = ''beta''"
proof -
  let ?g = two_network_graph
  let ?node = "mk_node ''hetzner:server:1'' COMPUTE_INSTANCE ''web'' (Some ''nbg1'')"
  let ?e1 = "\<lparr>from_id = ''hetzner:server:1'', to_id = ''hetzner:network:1'', edge_type = IN_NETWORK\<rparr>"
  let ?e2 = "\<lparr>from_id = ''hetzner:server:1'', to_id = ''hetzner:network:2'', edge_type = IN_NETWORK\<rparr>"
  let ?nw = "mk_node ''hetzner:network:2'' NETWORK ''beta'' None"
  have i: "0 < length (filter is_compute (nodes ?g))" by code_simp
  have node: "?node = filter is_compute (nodes ?g) ! 0" by code_simp
  have es: "[?e1, ?e2] = filter (\<lambda>e. edge_type e = IN_NETWORK \<and> from_id e = node_id ?node \<and>
                              (\<exists>n \<in> set (nodes ?g). is_network n \<and> node_id n = to_id e)) (edges ?g)"
    by code_simp
  have some: "[?e1, ?e2] \<noteq> []" by simp
  have nw: "?nw = last (filter (\<lambda>n. is_network n \<and> node_id n = to_id (last [?e1, ?e2])) (nodes ?g))"
    by code_simp
  have len: "length (filter (\<lambda>e. edge_type e = IN_NETWORK \<and> from_id e = ''hetzner:server:1'' \<and>
                     (\<exists>n \<in> set (nodes ?g). is_network n \<and> node_id n = to_id e)) (edges ?g)) = 2"
    by code_simp
  have "str_or (node_name ?node) (node_id ?node) = ''web''" by code_simp
  moreover have "str_or (node_name ?nw) (node_id ?nw) = ''beta''" by code_simp
  ultimately show ?thesis
    using graph_to_spec_network_of_last_edge [OF i node es some nw, of hd "''hetzner''"] i len
    by simp
qed

text \<open>On the graph with edges to \<open>alpha\<close> first and \<open>beta\<close> second, the instance is on \<open>beta\<close>.\<close>

theorem graph_to_spec_first_edge_counterexample:
  "network (instances (graph_to_spec hd two_network_graph ''hetzner'') ! 0) = ''beta'' \<and>
   network (instances (graph_to_spec hd two_network_graph ''hetzner'') ! 0) \<noteq> ''alpha''"
  by code_simp

text \<open>
  C6.  The claim says that the spec-level region is the region of the first
  \<open>ComputeInstance\<close> node that has one.  The regions are collected in a Python \<open>set\<close>
  and the result is \<open>next(iter(regions))\<close>, whose choice among several regions follows
  the hash order of the set, not the node order.  As amended, for every way
  \<open>first_of\<close> of taking an element of a non-empty set: the region is null exactly
  when no \<open>ComputeInstance\<close> node has a non-empty region, and otherwise it is the
  non-empty region of some \<open>ComputeInstance\<close> node.
\<close>

theorem graph_to_spec_region_of_some_instance:
  assumes pick: "\<And>xs. xs \<noteq> [] \<Longrightarrow> first_of xs \<in> set xs"
  shows "(region (graph_to_spec first_of g prov) = None \<longleftrightarrow>
            \<not> (\<exists>n \<in> set (nodes g). is_compute n \<and> truthy (node_region n))) \<and>
         (\<forall>r. region (graph_to_spec first_of g prov) = Some r \<longrightarrow>
            (\<exists>n \<in> set (nodes g). is_compute n \<and> node_region n = Some r \<and> r \<noteq> []))"
proof -
  from graph_to_spec_region [of g first_of prov] obtain regs where
    regs: "set regs = {r. \<exists>n \<in> set (nodes g). node_type n = COMPUTE_INSTANCE \<and> node_region n = Some r \<and> r \<noteq> []}"
    and reg: "region (graph_to_spec first_of g prov) = (if regs \<noteq> [] then Some (first_of regs) else None)"
    by blast
  have empty: "regs = [] \<longleftrightarrow> \<not> (\<exists>n \<in> set (nodes g). is_compute n \<and> truthy (node_region n))"
  proof -
    have "regs = [] \<longleftrightarrow> set regs = {}" by simp
    also have "\<dots> \<longleftrightarrow> \<not> (\<exists>n \<in> set (nodes g). is_compute n \<and> truthy (node_region n))"
      unfolding regs by (auto simp add: is_compute_def truthy_def split: option.splits)
    finally show ?thesis .
  qed
  have mem: "\<exists>n \<in> set (nodes g). is_compute n \<and> node_region n = Some r \<and> r \<noteq> []"
    if "region (graph_to_spec first_of g prov) = Some r" for r
  proof -
    from that reg have ne: "regs \<noteq> []" and r: "r = first_of regs" by (auto split: if_splits)
    from pick [OF ne] r have "r \<in> set regs" by simp
    then show ?thesis unfolding regs by (auto simp add: is_compute_def)
  qed
  from reg empty mem show ?thesis by auto
qed

theorem graph_to_spec_region_of_some_instance_witness:
  "region (graph_to_spec last two_network_graph ''hetzner'') = Some ''fsn1'' \<and>
   (\<exists>n \<in> set (nodes two_network_graph). is_compute n \<and> node_region n = Some ''fsn1'')"
proof -
  have pick: "\<And>xs :: string list. xs \<noteq> [] \<Longrightarrow> last xs \<in> set xs" by simp
  have "region (graph_to_spec last two_network_graph ''hetzner'') = Some ''fsn1''" by code_simp
  with graph_to_spec_region_of_some_instance [OF pick, of two_network_graph "''hetzner''"]
  show ?thesis by blast
qed

text \<open>
  With an iteration order that yields the region added last, the first instance is in
  \<open>nbg1\<close> and the spec-level region is \<open>fsn1\<close>.
\<close>

theorem graph_to_spec_first_region_counterexample:
  "node_region (hd (filter is_compute (nodes two_network_graph))) = Some ''nbg1'' \<and>
   region (graph_to_spec last two_network_graph ''hetzner'') = Some ''fsn1''"
  by code_simp

text \<open>
  Were the set iterated in insertion order (\<open>first_of = hd\<close>), the region would be the
  first one observed, as the claim has it.
\<close>

lemma instance_step_region_list:
  "fst (snd (instance_step sn st n)) =
     (if is_compute n \<and> truthy (node_region n)
      then set_add (the (node_region n)) (fst (snd st)) else fst (snd st))"
  by (cases st) (simp add: instance_step_def Let_def is_compute_def)

lemma regions_foldl_list:
  "fst (snd (foldl (instance_step sn) st ns)) =
     foldl (\<lambda>rs r. set_add r rs) (fst (snd st)) (observed_regions ns)"
proof (induction ns arbitrary: st)
  case Nil
  show ?case by (simp add: observed_regions_def)
next
  case (Cons n ns)
  show ?case
    by (simp only: foldl_Cons Cons instance_step_region_list)
       (simp add: observed_regions_def)
qed

lemma hd_set_add: "rs \<noteq> [] \<Longrightarrow> set_add r rs \<noteq> [] \<and> hd (set_add r rs) = hd rs"
  by (simp add: set_add_def)

lemma hd_foldl_set_add:
  "rs \<noteq> [] \<Longrightarrow> foldl (\<lambda>rs r. set_add r rs) rs xs \<noteq> [] \<and>
                hd (foldl (\<lambda>rs r. set_add r rs) rs xs) = hd rs"
proof (induction xs arbitrary: rs)
  case Nil
  then show ?case by simp
next
  case (Cons x xs)
  from hd_set_add [OF Cons.prems, of x] have ne: "set_add x rs \<noteq> []" and h: "hd (set_add x rs) = hd rs"
    by simp_all
  from Cons.IH [OF ne] h show ?case by simp
qed

lemma graph_to_spec_region_insertion_order:
  "region (graph_to_spec hd g prov) =
     (case observed_regions (nodes g) of [] \<Rightarrow> None | r # _ \<Rightarrow> Some r)"
proof -
  let ?sn = "build_server_network (build_networks (nodes g)) (edges g)"
  let ?st = "(build_networks (nodes g), [], [])"
  obtain nets regs insts where R: "foldl (instance_step ?sn) ?st (nodes g) = (nets, regs, insts)"
    by (cases "foldl (instance_step ?sn) ?st (nodes g)") auto
  from regions_foldl_list [of ?sn ?st "nodes g"] R
  have regs: "regs = foldl (\<lambda>rs r. set_add r rs) [] (observed_regions (nodes g))" by simp
  have reg: "region (graph_to_spec hd g prov) = (if regs \<noteq> [] then Some (hd regs) else None)"
    using R by (simp add: graph_to_spec_def Let_def)
  show ?thesis
  proof (cases "observed_regions (nodes g)")
    case Nil
    with regs reg show ?thesis by simp
  next
    case (Cons r rs)
    have "set_add r [] = [r]" by (simp add: set_add_def)
    with regs Cons have "regs = foldl (\<lambda>rs r. set_add r rs) [r] rs" by simp
    with hd_foldl_set_add [of "[r]" rs] have "regs \<noteq> [] \<and> hd regs = r" by simp
    with reg Cons show ?thesis by simp
  qed
qed

lemma net_names_setdefault:
  "k \<notin> fst ` set nets \<Longrightarrow> net_names (setdefault k v nets) = insert (net_name v) (net_names nets)"
  by (simp add: setdefault_def net_names_def)

lemma covered_step:
  assumes "covered sn st"
  shows "covered sn (instance_step sn st n)"
proof -
  obtain nets regs insts where st: "st = (nets, regs, insts)" by (cases st) auto
  from assms st have vals: "snd ` set sn \<subseteq> net_names nets"
    and ins: "network ` set insts \<subseteq> net_names nets"
    and key: "''synthetic:default'' \<in> fst ` set nets \<longrightarrow> ''default'' \<in> net_names nets"
    by (simp_all add: covered_def)
  show ?thesis
  proof (cases "node_type n = COMPUTE_INSTANCE")
    case False
    with assms st show ?thesis by (simp add: instance_step_def)
  next
    case True
    let ?nname = "resolved_network sn n"
    show ?thesis
    proof (cases "?nname \<in> net_names nets")
      case known: True
      with True vals ins key show ?thesis
        by (simp add: st instance_step_def Let_def covered_def resolved_network_def net_names_def)
    next
      case unknown: False
      have "map_of sn (node_id n) = None"
      proof (rule ccontr)
        assume "map_of sn (node_id n) \<noteq> None"
        then obtain v where v: "map_of sn (node_id n) = Some v" by auto
        then have "(node_id n, v) \<in> set sn" by (rule map_of_SomeD)
        then have "v \<in> snd ` set sn" by force
        with vals have "v \<in> net_names nets" by auto
        with v unknown show False by (simp add: resolved_network_def)
      qed
      then have dflt: "?nname = ''default''" by (simp add: resolved_network_def)
      with unknown key have nokey: "''synthetic:default'' \<notin> fst ` set nets" by auto
      let ?nets' = "setdefault ''synthetic:default'' \<lparr>net_name = ''default'', cidr = ''10.0.0.0/24''\<rparr> nets"
      have names': "net_names ?nets' = insert ''default'' (net_names nets)"
        using nokey by (simp add: net_names_setdefault)
      have step: "instance_step sn st n =
        (?nets', (if truthy (node_region n) then set_add (the (node_region n)) regs else regs),
         insts @ [instance_of sn n])"
        using True unknown dflt
        by (simp add: st instance_step_def Let_def resolved_network_def net_names_def instance_of_def)
      show ?thesis
        unfolding step covered_def
        using vals ins dflt by (auto simp add: names' instance_of_def)
    qed
  qed
qed

lemma covered_foldl: "covered sn st \<Longrightarrow> covered sn (foldl (instance_step sn) st ns)"
  by (induction ns arbitrary: st) (simp_all add: covered_step)

lemma set_alist_update_subset:
  "set (AList.update k v al) \<subseteq> insert (k, v) (set al)"
  by (induction al) auto

lemma build_server_network_values:
  "snd ` set (build_server_network nets es) \<subseteq> net_names nets"
proof (induction es rule: rev_induct)
  case Nil
  show ?case by (simp add: build_server_network_def)
next
  case (snoc e es)
  show ?case
  proof (cases "edge_type e = IN_NETWORK \<and> to_id e \<in> fst ` set nets")
    case False
    with snoc show ?thesis by (auto simp add: build_server_network_snoc)
  next
    case True
    then obtain v where v: "map_of nets (to_id e) = Some v"
      by (cases "map_of nets (to_id e)") (auto simp add: map_of_eq_None_iff)
    then have "(to_id e, v) \<in> set nets" by (rule map_of_SomeD)
    then have nm: "net_name v \<in> net_names nets" by (force simp add: net_names_def)
    have sub: "set (AList.update (from_id e) (net_name v) (build_server_network nets es))
                     \<subseteq> insert (from_id e, net_name v) (set (build_server_network nets es))"
      by (rule set_alist_update_subset)
    have "snd ` set (AList.update (from_id e) (net_name v) (build_server_network nets es))
            \<subseteq> net_names nets"
    proof
      fix b
      assume "b \<in> snd ` set (AList.update (from_id e) (net_name v) (build_server_network nets es))"
      then obtain a where "(a, b) \<in> set (AList.update (from_id e) (net_name v) (build_server_network nets es))"
        by auto
      with sub have "(a, b) = (from_id e, net_name v) \<or> (a, b) \<in> set (build_server_network nets es)"
        by blast
      then show "b \<in> net_names nets"
      proof
        assume "(a, b) = (from_id e, net_name v)"
        with nm show ?thesis by simp
      next
        assume "(a, b) \<in> set (build_server_network nets es)"
        then have "b \<in> snd ` set (build_server_network nets es)" by force
        with snoc show ?thesis by blast
      qed
    qed
    with True v show ?thesis by (simp add: build_server_network_snoc)
  qed
qed

lemma graph_to_spec_networks_cover:
  assumes "\<forall>n \<in> set (nodes g). node_type n = NETWORK \<longrightarrow> node_id n \<noteq> ''synthetic:default''"
  shows "\<forall>inst \<in> set (instances (graph_to_spec first_of g prov)).
           network inst \<in> net_name ` set (networks (graph_to_spec first_of g prov))"
proof -
  let ?nets0 = "build_networks (nodes g)"
  let ?sn = "build_server_network ?nets0 (edges g)"
  let ?st = "(?nets0, [], [])"
  have "''synthetic:default'' \<notin> fst ` set ?nets0"
    using assms by (auto simp add: keys_build_networks)
  then have "covered ?sn ?st"
    by (simp add: covered_def build_server_network_values)
  then have cov: "covered ?sn (foldl (instance_step ?sn) ?st (nodes g))" by (rule covered_foldl)
  obtain nets regs insts where R: "foldl (instance_step ?sn) ?st (nodes g) = (nets, regs, insts)"
    by (cases "foldl (instance_step ?sn) ?st (nodes g)") auto
  from cov R have "network ` set insts \<subseteq> net_names nets" by (simp add: covered_def)
  moreover have "net_names nets = net_name ` set (map snd nets)"
    by (force simp add: net_names_def)
  ultimately show ?thesis
    using R by (auto simp add: graph_to_spec_def Let_def)
qed

lemma placeholder_step:
  assumes "placeholder_only nets0 (fst st)"
  shows "placeholder_only nets0 (fst (instance_step sn st n))"
proof -
  obtain nets regs insts where st: "st = (nets, regs, insts)" by (cases st) auto
  with assms show ?thesis
    by (auto simp add: instance_step_def Let_def placeholder_only_def setdefault_def)
qed

lemma placeholder_foldl:
  "placeholder_only nets0 (fst st) \<Longrightarrow> placeholder_only nets0 (fst (foldl (instance_step sn) st ns))"
  by (induction ns arbitrary: st) (simp_all add: placeholder_step)

lemma build_networks_entries:
  "kv \<in> set (build_networks ns) \<Longrightarrow> \<exists>n \<in> set ns. node_type n = NETWORK \<and> snd kv = network_of_node n"
proof (induction ns arbitrary: kv rule: rev_induct)
  case Nil
  then show ?case by (simp add: build_networks_def)
next
  case (snoc n ns)
  show ?case
  proof (cases "node_type n = NETWORK")
    case False
    with snoc show ?thesis by (auto simp add: build_networks_snoc)
  next
    case True
    with snoc.prems have "kv \<in> set (AList.update (node_id n) (network_of_node n) (build_networks ns))"
      by (simp add: build_networks_snoc)
    with set_alist_update_subset [of "node_id n" "network_of_node n" "build_networks ns"]
    have "kv = (node_id n, network_of_node n) \<or> kv \<in> set (build_networks ns)" by blast
    then show ?thesis
    proof
      assume "kv = (node_id n, network_of_node n)"
      with True show ?thesis by simp
    next
      assume "kv \<in> set (build_networks ns)"
      from snoc.IH [OF this] show ?thesis by auto
    qed
  qed
qed

lemma provider_prefixed_not_synthetic: "provider_prefixed i \<Longrightarrow> i \<noteq> ''synthetic:default''"
  by (auto simp add: provider_prefixed_def)

text \<open>
  C7.  Node ids are provider-prefixed, \<open><provider>:<kind>:<native_id>\<close>, so no scanned
  Network node carries the id \<open>synthetic:default\<close>, the key under which the compiler
  stores the network it synthesizes.  For every such graph: every \<open>InstanceSpec\<close> of the
  output names a network for which the output holds a \<open>NetworkSpec\<close>, and that
  \<open>NetworkSpec\<close> has the CIDR \<open>10.0.0.0/24\<close> when no scanned network has the name;
  there is one \<open>InstanceSpec\<close> per \<open>ComputeInstance\<close> node, in node order, and an
  instance with no \<open>in_network\<close> edge is on the network \<open>default\<close>.
\<close>

theorem graph_to_spec_instances_addressable:
  assumes ids: "\<forall>n \<in> set (nodes g). node_type n = NETWORK \<longrightarrow> node_id n \<noteq> ''synthetic:default''"
      and spec: "spec = graph_to_spec first_of g prov"
      and computes: "computes = filter is_compute (nodes g)"
  shows "(\<forall>inst \<in> set (instances spec).
            \<exists>net \<in> set (networks spec).
              net_name net = network inst \<and>
              ((\<forall>n \<in> set (nodes g). is_network n \<longrightarrow> str_or (node_name n) (node_id n) \<noteq> network inst)
                 \<longrightarrow> cidr net = ''10.0.0.0/24'')) \<and>
         length (instances spec) = length computes \<and>
         (\<forall>i < length computes.
            \<not> (\<exists>e \<in> set (edges g). edge_type e = IN_NETWORK \<and> from_id e = node_id (computes ! i))
              \<longrightarrow> network (instances spec ! i) = ''default'')"
proof -
  let ?nets0 = "build_networks (nodes g)"
  let ?sn = "build_server_network ?nets0 (edges g)"
  let ?st = "(?nets0, [], [])"
  obtain nets regs insts where R: "foldl (instance_step ?sn) ?st (nodes g) = (nets, regs, insts)"
    by (cases "foldl (instance_step ?sn) ?st (nodes g)") auto
  have nw: "networks spec = map snd nets" and ins: "instances spec = insts"
    using R by (simp_all add: spec graph_to_spec_def Let_def)
  have "''synthetic:default'' \<notin> fst ` set ?nets0"
    using ids by (auto simp add: keys_build_networks)
  then have "covered ?sn ?st"
    by (simp add: covered_def build_server_network_values)
  then have "covered ?sn (foldl (instance_step ?sn) ?st (nodes g))" by (rule covered_foldl)
  with R have cov: "network ` set insts \<subseteq> net_names nets" by (simp add: covered_def)
  have "placeholder_only ?nets0 (fst ?st)" by (simp add: placeholder_only_def)
  then have "placeholder_only ?nets0 (fst (foldl (instance_step ?sn) ?st (nodes g)))"
    by (rule placeholder_foldl)
  with R have ph: "placeholder_only ?nets0 nets" by simp
  have one: "\<exists>net \<in> set (networks spec).
              net_name net = network inst \<and>
              ((\<forall>n \<in> set (nodes g). is_network n \<longrightarrow> str_or (node_name n) (node_id n) \<noteq> network inst)
                 \<longrightarrow> cidr net = ''10.0.0.0/24'')"
    if "inst \<in> set (instances spec)" for inst
  proof -
    from that ins cov have "network inst \<in> net_names nets" by auto
    then obtain k net where kn: "(k, net) \<in> set nets" and nm: "net_name net = network inst"
      by (auto simp add: net_names_def)
    from kn have mem: "net \<in> set (networks spec)" by (force simp add: nw)
    have "cidr net = ''10.0.0.0/24''"
      if unmatched: "\<forall>n \<in> set (nodes g). is_network n \<longrightarrow> str_or (node_name n) (node_id n) \<noteq> network inst"
    proof -
      have "(k, net) \<notin> set ?nets0"
      proof
        assume "(k, net) \<in> set ?nets0"
        from build_networks_entries [OF this] obtain n where
          "n \<in> set (nodes g)" "node_type n = NETWORK" "net = network_of_node n" by auto
        with nm unmatched show False by (auto simp add: network_of_node_def is_network_def)
      qed
      with ph kn show ?thesis by (auto simp add: placeholder_only_def)
    qed
    with mem nm show ?thesis by blast
  qed
  have insts: "instances spec = map (instance_of ?sn) computes"
    by (simp add: spec computes graph_to_spec_instances)
  have three: "network (instances spec ! i) = ''default''"
    if i: "i < length computes"
    and noedge: "\<not> (\<exists>e \<in> set (edges g). edge_type e = IN_NETWORK \<and> from_id e = node_id (computes ! i))"
    for i
  proof -
    from noedge have "filter (\<lambda>e. edge_type e = IN_NETWORK \<and> to_id e \<in> fst ` set ?nets0 \<and>
                        from_id e = node_id (computes ! i)) (edges g) = []"
      by (auto simp add: filter_empty_conv)
    then have "map_of ?sn (node_id (computes ! i)) = None"
      by (simp add: map_of_build_server_network Let_def)
    then show ?thesis
      using i by (simp add: insts instance_of_def resolved_network_def)
  qed
  from one three insts show ?thesis by simp
qed

theorem graph_to_spec_instances_addressable_witness:
  "''synthetic:default'' \<notin> set (map node_id (filter is_network (nodes two_network_graph))) \<and>
   map network (instances (graph_to_spec hd two_network_graph ''hetzner'')) = [''beta'', ''default''] \<and>
   networks (graph_to_spec hd two_network_graph ''hetzner'') =
     [\<lparr>net_name = ''alpha'', cidr = ''10.0.0.0/24''\<rparr>, \<lparr>net_name = ''beta'', cidr = ''10.0.0.0/24''\<rparr>,
      \<lparr>net_name = ''default'', cidr = ''10.0.0.0/24''\<rparr>] \<and>
   (\<exists>net \<in> set (networks (graph_to_spec hd two_network_graph ''hetzner'')).
      net_name net = network (instances (graph_to_spec hd two_network_graph ''hetzner'') ! 1) \<and>
      cidr net = ''10.0.0.0/24'') \<and>
   network (instances (graph_to_spec hd two_network_graph ''hetzner'') ! 1) = ''default''"
proof -
  let ?g = two_network_graph
  let ?spec = "graph_to_spec hd ?g ''hetzner''"
  have idl: "''synthetic:default'' \<notin> set (map node_id (filter is_network (nodes ?g)))" by code_simp
  then have ids: "\<forall>n \<in> set (nodes ?g). node_type n = NETWORK \<longrightarrow> node_id n \<noteq> ''synthetic:default''"
    by (force simp add: is_network_def)
  note T = graph_to_spec_instances_addressable [OF ids refl refl, of hd "''hetzner''"]
  have len: "1 < length (filter is_compute (nodes ?g))" by code_simp
  have noedge: "\<not> (\<exists>e \<in> set (edges ?g). edge_type e = IN_NETWORK \<and>
                    from_id e = node_id (filter is_compute (nodes ?g) ! 1))"
    by code_simp
  from T len noedge have dflt: "network (instances ?spec ! 1) = ''default''" by blast
  from T len have "1 < length (instances ?spec)" by simp
  then have mem: "instances ?spec ! 1 \<in> set (instances ?spec)" by (rule nth_mem)
  have unmatched: "\<forall>n \<in> set (nodes ?g). is_network n \<longrightarrow>
                     str_or (node_name n) (node_id n) \<noteq> network (instances ?spec ! 1)"
    unfolding dflt by code_simp
  from T mem unmatched have ex: "\<exists>net \<in> set (networks ?spec).
      net_name net = network (instances ?spec ! 1) \<and> cidr net = ''10.0.0.0/24''"
    by blast
  have nets: "networks ?spec =
     [\<lparr>net_name = ''alpha'', cidr = ''10.0.0.0/24''\<rparr>, \<lparr>net_name = ''beta'', cidr = ''10.0.0.0/24''\<rparr>,
      \<lparr>net_name = ''default'', cidr = ''10.0.0.0/24''\<rparr>]"
    by code_simp
  have m: "map network (instances ?spec) = [''beta'', ''default'']" by code_simp
  from idl m nets ex dflt show ?thesis by (simp only: simp_thms)
qed

text \<open>
  The hypothesis on the id is needed: \<open>setdefault\<close> stores nothing under a key that is
  already taken.
\<close>

lemma graph_to_spec_synthetic_key_collision:
  "graph_to_spec first_of collision_graph ''hetzner'' =
     \<lparr>provider = ''hetzner'', region = None,
      networks = [\<lparr>net_name = ''lan'', cidr = ''10.0.0.0/24''\<rparr>],
      instances = [\<lparr>inst_name = ''web'', inst_size = ''cx21'', network = ''default'',
                    inst_region = None, inst_labels = [], workloads = [], maintenance = None\<rparr>],
      load_balancers = [], firewalls = [], dns_records = [], containers = []\<rparr>"
  by (simp add: graph_to_spec_def collision_graph_def mk_node_def build_networks_def
      build_server_network_def instance_step_def network_of_node_def str_or_def setdefault_def
      truthy_def Let_def)

subsection \<open>The Hetzner generator\<close>

text \<open>
  C9.  For a spec with zero instances, \<open>generate\<close> writes an empty \<open>servers.tf\<close> and an
  \<open>outputs.tf\<close> whose \<open>server_ips\<close> value is the empty map.
\<close>

theorem generate_zero_instances:
  assumes \<open>instances spec = []\<close>
  shows \<open>generate spec out_dir tr =
           (Inr (),
            tr @ [Mkdir out_dir,
                  WriteFile (out_dir @ ''/backend.tf'') backend_tf,
                  WriteFile (out_dir @ ''/providers.tf'') providers_tf,
                  WriteFile (out_dir @ ''/variables.tf'') variables_tf,
                  WriteFile (out_dir @ ''/network.tf'') (network_tf spec),
                  WriteFile (out_dir @ ''/servers.tf'') [],
                  WriteFile (out_dir @ ''/outputs.tf'')
                    (''output "server_ips" {'' @ NL @ ''  value = {'' @ NL @ ''  }'' @ NL @ ''}'' @ NL)])\<close>
  using assms
  by (simp add: generate_def seq_def bind_def emit_def servers_tf_def outputs_tf_def)

theorem generate_zero_instances_witness:
  \<open>instances empty_spec = [] \<and>
   generate empty_spec ''/srv/shop/cloudhand/terraform'' [] =
     (Inr (),
      [Mkdir ''/srv/shop/cloudhand/terraform'',
       WriteFile ''/srv/shop/cloudhand/terraform/backend.tf'' backend_tf,
       WriteFile ''/srv/shop/cloudhand/terraform/providers.tf'' providers_tf,
       WriteFile ''/srv/shop/cloudhand/terraform/variables.tf'' variables_tf,
       WriteFile ''/srv/shop/cloudhand/terraform/network.tf''
         (''data "hcloud_network" "app_net" {'' @ NL @ ''  name = "app-net"'' @ NL @ ''}'' @ NL @ NL),
       WriteFile ''/srv/shop/cloudhand/terraform/servers.tf'' [],
       WriteFile ''/srv/shop/cloudhand/terraform/outputs.tf''
         (''output "server_ips" {'' @ NL @ ''  value = {'' @ NL @ ''  }'' @ NL @ ''}'' @ NL)])\<close>
proof -
  have e: "instances empty_spec = []" by (simp add: empty_spec_def)
  have n: \<open>network_tf empty_spec =
    ''data "hcloud_network" "app_net" {'' @ NL @ ''  name = "app-net"'' @ NL @ ''}'' @ NL @ NL\<close>
    by code_simp
  from generate_zero_instances [OF e, of "''/srv/shop/cloudhand/terraform''" "[]"] e n
  show ?thesis by simp
qed

subsection \<open>Combined routing\<close>

lemma first_index_Some:
  "first_index P xs = Some i \<Longrightarrow> i < length xs \<and> P (xs ! i) \<and> (\<forall>j<i. \<not> P (xs ! j))"
proof (induction xs arbitrary: i)
  case Nil
  then show ?case by simp
next
  case (Cons x xs)
  show ?case
  proof (cases "P x")
    case True
    with Cons.prems show ?thesis by simp
  next
    case False
    with Cons.prems obtain k where k: "first_index P xs = Some k" and i: "i = Suc k" by auto
    from Cons.IH [OF k] have "k < length xs" "P (xs ! k)" "\<forall>j<k. \<not> P (xs ! j)" by simp_all
    with False i show ?thesis by (auto simp add: less_Suc_eq_0_disj)
  qed
qed

lemma first_index_None: "first_index P xs = None \<Longrightarrow> \<forall>x \<in> set xs. \<not> P x"
  by (induction xs) (auto split: if_splits)

lemma skip_none:
  "length js = length xs \<Longrightarrow> t \<notin> set js \<Longrightarrow>
   concat (map (\<lambda>(i, a). if i = t then [] else [f a]) (zip js xs)) = map f xs"
  by (induction js xs rule: list_induct2) auto

lemma skip_index:
  "r < length xs \<Longrightarrow>
   concat (map (\<lambda>(i, a). if i = k + r then [] else [f a]) (zip [k ..< k + length xs] xs)) =
     map f (take r xs @ drop (Suc r) xs)"
proof (induction xs arbitrary: k r)
  case Nil
  then show ?case by simp
next
  case (Cons x xs)
  have upt: "[k ..< k + length (x # xs)] = k # [Suc k ..< Suc k + length xs]"
    by (simp add: upt_conv_Cons del: upt_Suc)
  show ?case
  proof (cases r)
    case 0
    have "concat (map (\<lambda>(i, a). if i = k then [] else [f a]) (zip [Suc k ..< Suc k + length xs] xs)) =
            map f xs"
      by (rule skip_none) (simp_all del: upt_Suc)
    with 0 show ?thesis unfolding upt by (simp del: upt_Suc)
  next
    case (Suc r')
    with Cons.prems have "r' < length xs" by simp
    from Cons.IH [OF this, of "Suc k"]
    have "concat (map (\<lambda>(i, a). if i = Suc k + r' then [] else [f a])
            (zip [Suc k ..< Suc k + length xs] xs)) = map f (take r' xs @ drop (Suc r') xs)" .
    with Suc show ?thesis unfolding upt by (simp del: upt_Suc)
  qed
qed

lemma location_prefix_eq: "location_prefix a = route_prefix a"
  by (simp add: location_prefix_def route_prefix_def Let_def endswith_def)

lemma first_port_hd: "ports (service_config a) \<noteq> [] \<Longrightarrow> first_port a = hd (ports (service_config a))"
  by (cases "ports (service_config a)") (simp_all add: first_port_def)

lemma locations_of_eq:
  assumes "root_index cs < length cs" and "\<forall>a \<in> set cs. ports (service_config a) \<noteq> []"
  shows "locations_of cs =
           map (\<lambda>a. location_block (route_prefix a) (hd (ports (service_config a))))
             (take (root_index cs) cs @ drop (Suc (root_index cs)) cs)"
proof -
  have "locations_of cs =
          map (\<lambda>a. location_block (location_prefix a) (first_port a))
            (take (root_index cs) cs @ drop (Suc (root_index cs)) cs)"
    using assms(1)
      skip_index [of "root_index cs" cs 0 "\<lambda>a. location_block (location_prefix a) (first_port a)"]
    by (simp add: locations_of_def)
  also have "\<dots> = map (\<lambda>a. location_block (route_prefix a) (hd (ports (service_config a))))
             (take (root_index cs) cs @ drop (Suc (root_index cs)) cs)"
  proof (rule map_cong [OF refl])
    fix a assume "a \<in> set (take (root_index cs) cs @ drop (Suc (root_index cs)) cs)"
    then have "a \<in> set cs" by (auto dest: in_set_takeD in_set_dropD)
    with assms(2) show "location_block (location_prefix a) (first_port a) =
       location_block (route_prefix a) (hd (ports (service_config a)))"
      by (simp add: location_prefix_eq first_port_hd)
  qed
  finally show ?thesis .
qed

text \<open>
  C5.  The claim speaks of every non-empty workload list and of names that contain
  \<open>ui\<close> and \<open>api\<close>.  The code first drops the workloads that declare no port, and
  it looks for \<open>ui\<close> and \<open>api\<close> in the lower-cased name.  As amended: when no
  workload declares a port, \<open>configure_combined_nginx\<close> does nothing; otherwise it
  uploads one site to \<open>/etc/nginx/sites-available/cloudhand\<close>, links it, removes the
  default site and reloads nginx.  That site proxies the root path to the first port of
  the first workload with a port whose lower-cased name contains \<open>ui\<close> (or else of the
  first workload with a port), and it holds one location for every other workload with a
  port, in list order, under \<open>/api/\<close> if its lower-cased name contains \<open>api\<close> and
  under \<open>/<name>/\<close> otherwise, each proxied to that workload's first port.
\<close>

theorem combined_conf_routes:
  assumes cands: "candidates = filter (\<lambda>a. ports (service_config a) \<noteq> []) apps"
      and names: "names = normalize_server_names (concat (map (\<lambda>a. server_names (service_config a)) candidates))"
  shows "(candidates = [] \<longrightarrow>
            combined_conf apps = None \<and> configure_combined_nginx h d apps tr = (Inr (), tr)) \<and>
         (candidates \<noteq> [] \<longrightarrow>
            (\<exists>r < length candidates.
               ((is_ui (candidates ! r) \<and> (\<forall>j<r. \<not> is_ui (candidates ! j))) \<or>
                (r = 0 \<and> (\<forall>a \<in> set candidates. \<not> is_ui a))) \<and>
               configure_combined_nginx h d apps tr =
                 seq (upload_file d
                        (join NL
                           (combined_config (server_name_directive names)
                              (hd (ports (service_config (candidates ! r))))
                              (map (\<lambda>a. location_block (route_prefix a) (hd (ports (service_config a))))
                                 (take r candidates @ drop (Suc r) candidates))))
                        ''/etc/nginx/sites-available/cloudhand'')
                (seq (run d ''ln -sf /etc/nginx/sites-available/cloudhand /etc/nginx/sites-enabled/cloudhand'' None None)
                (seq (run d ''rm -f /etc/nginx/sites-enabled/default || true'' None None)
                (seq (run d ''systemctl reload nginx'' None None)
                     (if \<exists>a \<in> set candidates. https (service_config a)
                      then enable_https h d names else return ())))) tr))"
proof -
  have c: "candidates_of apps = candidates" by (simp add: candidates_of_def cands)
  show ?thesis
  proof (cases "candidates = []")
    case True
    then have "combined_conf apps = None" by (simp add: combined_conf_def c)
    with True show ?thesis
      by (simp add: configure_combined_nginx_def return_def)
  next
    case ne: False
    have ported: "\<forall>a \<in> set candidates. ports (service_config a) \<noteq> []" by (simp add: cands)
    let ?r = "root_index candidates"
    let ?conf = "join NL
                   (combined_config (server_name_directive names)
                      (hd (ports (service_config (candidates ! ?r))))
                      (map (\<lambda>a. location_block (route_prefix a) (hd (ports (service_config a))))
                         (take ?r candidates @ drop (Suc ?r) candidates)))"
    have r: "?r < length candidates \<and>
             ((is_ui (candidates ! ?r) \<and> (\<forall>j<?r. \<not> is_ui (candidates ! j))) \<or>
              (?r = 0 \<and> (\<forall>a \<in> set candidates. \<not> is_ui a)))"
    proof (cases "first_index (\<lambda>a. contains ''ui'' (lower (name a))) candidates")
      case None
      from first_index_None [OF None] ne show ?thesis
        by (simp add: root_index_def None is_ui_def)
    next
      case (Some i)
      from first_index_Some [OF Some] show ?thesis
        by (simp add: root_index_def Some is_ui_def)
    qed
    then have lt: "?r < length candidates" by simp
    then have "candidates ! ?r \<in> set candidates" by simp
    with ported have port: "first_port (candidates ! ?r) = hd (ports (service_config (candidates ! ?r)))"
      by (simp add: first_port_hd)
    have conf: "combined_conf apps = Some ?conf"
      using ne by (simp add: combined_conf_def c Let_def port locations_of_eq [OF lt ported] names)
    have "configure_combined_nginx h d apps tr =
                 seq (upload_file d ?conf ''/etc/nginx/sites-available/cloudhand'')
                (seq (run d ''ln -sf /etc/nginx/sites-available/cloudhand /etc/nginx/sites-enabled/cloudhand'' None None)
                (seq (run d ''rm -f /etc/nginx/sites-enabled/default || true'' None None)
                (seq (run d ''systemctl reload nginx'' None None)
                     (if \<exists>a \<in> set candidates. https (service_config a)
                      then enable_https h d names else return ())))) tr"
      by (simp add: configure_combined_nginx_def conf c Let_def names)
    with r ne show ?thesis by blast
  qed
qed

theorem combined_conf_routes_witness:
  \<open>filter (\<lambda>a. ports (service_config a) \<noteq> []) four_apps =
     [mk_app ''web'' [3000], mk_app ''Admin-UI'' [4000, 4001], mk_app ''my-api'' [8000]] \<and>
   configure_combined_nginx bare_host compliant_deployer four_apps [] =
     (Inr (),
      [Upload ''203.0.113.7'' ''/etc/nginx/sites-available/cloudhand''
         (join NL
           [''server {'',
            ''    listen 80;'',
            ''    server_name _;'',
            ''    client_max_body_size 25m;'',
            ''    location / {'',
            ''        proxy_pass http://127.0.0.1:4000/;'',
            ''        proxy_http_version 1.1;'',
            ''        proxy_set_header Upgrade $http_upgrade;'',
            ''        proxy_set_header Connection 'upgrade';'',
            ''        proxy_set_header Host $host;'',
            ''        proxy_set_header X-Real-IP $remote_addr;'',
            ''    }'',
            ''    location /web/ {'',
            ''        proxy_pass http://127.0.0.1:3000/;'',
            ''        proxy_http_version 1.1;'',
            ''        proxy_set_header Upgrade $http_upgrade;'',
            ''        proxy_set_header Connection 'upgrade';'',
            ''        proxy_set_header Host $host;'',
            ''        proxy_set_header X-Real-IP $remote_addr;'',
            ''    }'',
            ''    location /api/ {'',
            ''        proxy_pass http://127.0.0.1:8000/;'',
            ''        proxy_http_version 1.1;'',
            ''        proxy_set_header Upgrade $http_upgrade;'',
            ''        proxy_set_header Connection 'upgrade';'',
            ''        proxy_set_header Host $host;'',
            ''        proxy_set_header X-Real-IP $remote_addr;'',
            ''    }'',
            ''}'']),
       Print ''[203.0.113.7] Running: ln -sf /etc/nginx/sites-available/cloudhand /etc/nginx/sites-enabled/cloudhand'',
       Exec ''203.0.113.7'' ''ln -sf /etc/nginx/sites-available/cloudhand /etc/nginx/sites-enabled/cloudhand'',
       Print ''[203.0.113.7] Running: rm -f /etc/nginx/sites-enabled/default || true'',
       Exec ''203.0.113.7'' ''rm -f /etc/nginx/sites-enabled/default || true'',
       Print ''[203.0.113.7] Running: systemctl reload nginx'',
       Exec ''203.0.113.7'' ''systemctl reload nginx'']) \<and>
   filter (\<lambda>a. ports (service_config a) \<noteq> []) [mk_app ''worker'' [], mk_app ''ui'' []] = [] \<and>
   configure_combined_nginx bare_host compliant_deployer [mk_app ''worker'' [], mk_app ''ui'' []] [] =
     (Inr (), [])\<close>
proof -
  let ?web = "mk_app ''web'' [3000]"
  let ?ui = "mk_app ''Admin-UI'' [4000, 4001]"
  let ?api = "mk_app ''my-api'' [8000]"
  let ?cs = "[?web, ?ui, ?api]"
  have cands: "?cs = filter (\<lambda>a. ports (service_config a) \<noteq> []) four_apps" by code_simp
  from combined_conf_routes [OF cands refl, of bare_host compliant_deployer "[]"]
  obtain r where
    r: "r < length ?cs" and
    root: "(is_ui (?cs ! r) \<and> (\<forall>j<r. \<not> is_ui (?cs ! j))) \<or> (r = 0 \<and> (\<forall>a \<in> set ?cs. \<not> is_ui a))" and
    conf: "configure_combined_nginx bare_host compliant_deployer four_apps [] =
             seq (upload_file compliant_deployer
                        (join NL
                           (combined_config (server_name_directive
                                (normalize_server_names (concat (map (\<lambda>a. server_names (service_config a)) ?cs))))
                              (hd (ports (service_config (?cs ! r))))
                              (map (\<lambda>a. location_block (route_prefix a) (hd (ports (service_config a))))
                                 (take r ?cs @ drop (Suc r) ?cs))))
                        ''/etc/nginx/sites-available/cloudhand'')
                (seq (run compliant_deployer ''ln -sf /etc/nginx/sites-available/cloudhand /etc/nginx/sites-enabled/cloudhand'' None None)
                (seq (run compliant_deployer ''rm -f /etc/nginx/sites-enabled/default || true'' None None)
                (seq (run compliant_deployer ''systemctl reload nginx'' None None)
                     (if \<exists>a \<in> set ?cs. https (service_config a)
                      then enable_https bare_host compliant_deployer
                             (normalize_server_names (concat (map (\<lambda>a. server_names (service_config a)) ?cs)))
                      else return ())))) []"
    by auto
  have web: "\<not> is_ui ?web" by code_simp
  have ui: "is_ui ?ui" by code_simp
  have "r = 1"
  proof -
    from r have "r = 0 \<or> r = 1 \<or> r = 2" by auto
    then show ?thesis
    proof (elim disjE)
      assume "r = 0" with root web ui show ?thesis by simp
    next
      assume "r = 1" then show ?thesis .
    next
      assume "r = 2" with root ui show ?thesis by (auto simp add: numeral_2_eq_2)
    qed
  qed
  have rhs: \<open>seq (upload_file compliant_deployer
                        (join NL
                           (combined_config (server_name_directive
                                (normalize_server_names (concat (map (\<lambda>a. server_names (service_config a)) ?cs))))
                              (hd (ports (service_config (?cs ! 1))))
                              (map (\<lambda>a. location_block (route_prefix a) (hd (ports (service_config a))))
                                 (take 1 ?cs @ drop (Suc 1) ?cs))))
                        ''/etc/nginx/sites-available/cloudhand'')
                (seq (run compliant_deployer ''ln -sf /etc/nginx/sites-available/cloudhand /etc/nginx/sites-enabled/cloudhand'' None None)
                (seq (run compliant_deployer ''rm -f /etc/nginx/sites-enabled/default || true'' None None)
                (seq (run compliant_deployer ''systemctl reload nginx'' None None)
                     (if \<exists>a \<in> set ?cs. https (service_config a)
                      then enable_https bare_host compliant_deployer
                             (normalize_server_names (concat (map (\<lambda>a. server_names (service_config a)) ?cs)))
                      else return ())))) [] =
     (Inr (),
      [Upload ''203.0.113.7'' ''/etc/nginx/sites-available/cloudhand''
         (join NL
           [''server {'',
            ''    listen 80;'',
            ''    server_name _;'',
            ''    client_max_body_size 25m;'',
            ''    location / {'',
            ''        proxy_pass http://127.0.0.1:4000/;'',
            ''        proxy_http_version 1.1;'',
            ''        proxy_set_header Upgrade $http_upgrade;'',
            ''        proxy_set_header Connection 'upgrade';'',
            ''        proxy_set_header Host $host;'',
            ''        proxy_set_header X-Real-IP $remote_addr;'',
            ''    }'',
            ''    location /web/ {'',
            ''        proxy_pass http://127.0.0.1:3000/;'',
            ''        proxy_http_version 1.1;'',
            ''        proxy_set_header Upgrade $http_upgrade;'',
            ''        proxy_set_header Connection 'upgrade';'',
            ''        proxy_set_header Host $host;'',
            ''        proxy_set_header X-Real-IP $remote_addr;'',
            ''    }'',
            ''    location /api/ {'',
            ''        proxy_pass http://127.0.0.1:8000/;'',
            ''        proxy_http_version 1.1;'',
            ''        proxy_set_header Upgrade $http_upgrade;'',
            ''        proxy_set_header Connection 'upgrade';'',
            ''        proxy_set_header Host $host;'',
            ''        proxy_set_header X-Real-IP $remote_addr;'',
            ''    }'',
            ''}'']),
       Print ''[203.0.113.7] Running: ln -sf /etc/nginx/sites-available/cloudhand /etc/nginx/sites-enabled/cloudhand'',
       Exec ''203.0.113.7'' ''ln -sf /etc/nginx/sites-available/cloudhand /etc/nginx/sites-enabled/cloudhand'',
       Print ''[203.0.113.7] Running: rm -f /etc/nginx/sites-enabled/default || true'',
       Exec ''203.0.113.7'' ''rm -f /etc/nginx/sites-enabled/default || true'',
       Print ''[203.0.113.7] Running: systemctl reload nginx'',
       Exec ''203.0.113.7'' ''systemctl reload nginx''])\<close>
    by code_simp
  from conf have "configure_combined_nginx bare_host compliant_deployer four_apps [] =
             seq (upload_file compliant_deployer
                        (join NL
                           (combined_config (server_name_directive
                                (normalize_server_names (concat (map (\<lambda>a. server_names (service_config a)) ?cs))))
                              (hd (ports (service_config (?cs ! 1))))
                              (map (\<lambda>a. location_block (route_prefix a) (hd (ports (service_config a))))
                                 (take 1 ?cs @ drop (Suc 1) ?cs))))
                        ''/etc/nginx/sites-available/cloudhand'')
                (seq (run compliant_deployer ''ln -sf /etc/nginx/sites-available/cloudhand /etc/nginx/sites-enabled/cloudhand'' None None)
                (seq (run compliant_deployer ''rm -f /etc/nginx/sites-enabled/default || true'' None None)
                (seq (run compliant_deployer ''systemctl reload nginx'' None None)
                     (if \<exists>a \<in> set ?cs. https (service_config a)
                      then enable_https bare_host compliant_deployer
                             (normalize_server_names (concat (map (\<lambda>a. server_names (service_config a)) ?cs)))
                      else return ())))) []"
    unfolding \<open>r = 1\<close> .
  then have full: \<open>configure_combined_nginx bare_host compliant_deployer four_apps [] =
     (Inr (),
      [Upload ''203.0.113.7'' ''/etc/nginx/sites-available/cloudhand''
         (join NL
           [''server {'',
            ''    listen 80;'',
            ''    server_name _;'',
            ''    client_max_body_size 25m;'',
            ''    location / {'',
            ''        proxy_pass http://127.0.0.1:4000/;'',
            ''        proxy_http_version 1.1;'',
            ''        proxy_set_header Upgrade $http_upgrade;'',
            ''        proxy_set_header Connection 'upgrade';'',
            ''        proxy_set_header Host $host;'',
            ''        proxy_set_header X-Real-IP $remote_addr;'',
            ''    }'',
            ''    location /web/ {'',
            ''        proxy_pass http://127.0.0.1:3000/;'',
            ''        proxy_http_version 1.1;'',
            ''        proxy_set_header Upgrade $http_upgrade;'',
            ''        proxy_set_header Connection 'upgrade';'',
            ''        proxy_set_header Host $host;'',
            ''        proxy_set_header X-Real-IP $remote_addr;'',
            ''    }'',
            ''    location /api/ {'',
            ''        proxy_pass http://127.0.0.1:8000/;'',
            ''        proxy_http_version 1.1;'',
            ''        proxy_set_header Upgrade $http_upgrade;'',
            ''        proxy_set_header Connection 'upgrade';'',
            ''        proxy_set_header Host $host;'',
            ''        proxy_set_header X-Real-IP $remote_addr;'',
            ''    }'',
            ''}'']),
       Print ''[203.0.113.7] Running: ln -sf /etc/nginx/sites-available/cloudhand /etc/nginx/sites-enabled/cloudhand'',
       Exec ''203.0.113.7'' ''ln -sf /etc/nginx/sites-available/cloudhand /etc/nginx/sites-enabled/cloudhand'',
       Print ''[203.0.113.7] Running: rm -f /etc/nginx/sites-enabled/default || true'',
       Exec ''203.0.113.7'' ''rm -f /etc/nginx/sites-enabled/default || true'',
       Print ''[203.0.113.7] Running: systemctl reload nginx'',
       Exec ''203.0.113.7'' ''systemctl reload nginx''])\<close>
    by (simp only: rhs)
  have none: "[] = filter (\<lambda>a. ports (service_config a) \<noteq> []) [mk_app ''worker'' [], mk_app ''ui'' []]"
    by code_simp
  from combined_conf_routes [OF none refl, of bare_host compliant_deployer "[]"]
  have empty: "configure_combined_nginx bare_host compliant_deployer [mk_app ''worker'' [], mk_app ''ui'' []] [] =
                 (Inr (), [])"
    by simp
  from cands full none empty show ?thesis by (simp only: simp_thms)
qed

text \<open>
  For a worker without a port followed by \<open>api\<close> on port 8000, the root path goes to
  port 8000 and the site has no \<open>/api/\<close> location; for a single workload named
  \<open>ui\<close> without a port, no site text is produced and nothing is uploaded.
\<close>

theorem combined_conf_no_port_counterexample:
  \<open>combined_conf two_apps =
     Some (join NL
       [''server {'',
        ''    listen 80;'',
        ''    server_name _;'',
        ''    client_max_body_size 25m;'',
        ''    location / {'',
        ''        proxy_pass http://127.0.0.1:8000/;'',
        ''        proxy_http_version 1.1;'',
        ''        proxy_set_header Upgrade $http_upgrade;'',
        ''        proxy_set_header Connection 'upgrade';'',
        ''        proxy_set_header Host $host;'',
        ''        proxy_set_header X-Real-IP $remote_addr;'',
        ''    }'',
        ''}'']) \<and>
   \<not> contains ''location /api/'' (the (combined_conf two_apps)) \<and>
   combined_conf [mk_app ''ui'' []] = None \<and>
   configure_combined_nginx bare_host compliant_deployer [mk_app ''ui'' []] [] = (Inr (), [])\<close>
  by code_simp

subsection \<open>The graph file\<close>

lemma traverse_map:
  assumes "\<And>x. x \<in> set xs \<Longrightarrow> f (g x) = Inr x"
  shows "traverse f (map g xs) = Inr xs"
  using assms by (induction xs) simp_all

lemma parse_node_type_value: "parse_node_type (Some (JStr (node_type_value t))) = Inr t"
  by (cases t) (simp_all add: parse_node_type_def node_type_value_def)

lemma parse_edge_type_value: "parse_edge_type (Some (JStr (edge_type_value t))) = Inr t"
  by (cases t) (simp_all add: parse_edge_type_def edge_type_value_def)

lemma opt_str_dump: "opt_str field (Some (dump_opt_str x)) = Inr x"
  by (cases x) (simp_all add: opt_str_def dump_opt_str_def)

lemma str_dict_dump: "str_dict field (Some (dump_dict d)) = Inr d"
proof -
  have "traverse (str_item field) (map (\<lambda>(k, v). (k, JStr v)) d) = Inr d"
    by (rule traverse_map) (auto simp add: str_item_def)
  then show ?thesis by (simp add: str_dict_def dump_dict_def)
qed

lemma validate_node_dump: "validate_node (dump_node n) = Inr n"
  by (simp add: validate_node_def dump_node_def and_then_def need_str_def parse_node_type_value
      opt_str_dump str_dict_dump)

lemma validate_edge_dump: "validate_edge (dump_edge e) = Inr e"
  by (simp add: validate_edge_def dump_edge_def and_then_def need_str_def parse_edge_type_value
      by_alias_or_name_def)

text \<open>
  C8.  Serializing a \<open>CloudGraph\<close> and decoding the result gives the graph back: the
  same nodes and edges in the same order, with the same ids, attributes and every other
  field, hence the same counts.  Serialization is \<open>model_dump_json\<close> and decoding is
  \<open>json.loads\<close> followed by \<open>CloudGraph.model_validate\<close>; the JSON text in between is
  taken as the JSON value it denotes.
\<close>

theorem graph_round_trip: "validate_graph (dump_graph g) = Inr g"
proof -
  have ns: "traverse validate_node (map dump_node (nodes g)) = Inr (nodes g)"
    by (rule traverse_map) (rule validate_node_dump)
  have es: "traverse validate_edge (map dump_edge (edges g)) = Inr (edges g)"
    by (rule traverse_map) (rule validate_edge_dump)
  show ?thesis
    by (simp add: validate_graph_def dump_graph_def model_list_def and_then_def ns es)
qed

subsection \<open>\<open>apply_plan\<close>\<close>

lemma generate_result: "generate spec out_dir tr = (Inr (), snd (generate spec out_dir tr))"
  by (simp add: generate_def seq_def bind_def emit_def)


lemma apply_plan_prepared:
  assumes spec: "load_new_spec sys plan_path = Inr spec"
      and prov: "provider spec = ''hetzner''"
      and key: "project_ssh_key sys (butlast (prepared sys root_dir spec project_id tr)) project_id =
                  Inr (priv_key, pub_key)"
  shows "apply_plan sys root_dir plan_path auto_approve terraform_bin project_id workspace_id tr =
           provision_and_deploy sys root_dir spec auto_approve terraform_bin priv_key pub_key
             (prepared sys root_dir spec project_id tr)"
proof -
  define tr0 where "tr0 = tr @ [Mkdir (cloudhand_dir root_dir),
                    WriteFile (cloudhand_dir root_dir @ ''/spec.json'') (model_dump_json sys spec)]"
  define g where "g = snd (generate spec (terraform_dir root_dir) tr0)"
  have prep: "prepared sys root_dir spec project_id tr =
                g @ [Print ''Fetching SSH Identity...'', KeyStore project_id]"
    by (simp add: prepared_def g_def tr0_def)
  have gen: "generate spec (terraform_dir root_dir) tr0 = (Inr (), g)"
    unfolding g_def by (rule generate_result)
  have "project_ssh_key sys (g @ [Print ''Fetching SSH Identity...'']) project_id = Inr (priv_key, pub_key)"
    using key by (simp add: prep butlast_append)
  then have fk: "fetch_key sys project_id (g @ [Print ''Fetching SSH Identity...'']) =
              (Inr (priv_key, pub_key), g @ [Print ''Fetching SSH Identity...'', KeyStore project_id])"
    by (simp add: fetch_key_def)
  have "apply_plan sys root_dir plan_path auto_approve terraform_bin project_id workspace_id tr =
          provision_and_deploy sys root_dir spec auto_approve terraform_bin priv_key pub_key
            (g @ [Print ''Fetching SSH Identity...'', KeyStore project_id])"
    by (simp add: apply_plan_def bind_def seq_def lift_def emit_def spec prov get_generator_def
        tr0_def [symmetric] gen fk)
  then show ?thesis by (simp only: prep)
qed

lemma provision_tool_failure:
  assumes tool: "which sys terraform_bin = Some tf_bin"
      and init: "init_rc = fst (subprocess sys tr1 (init_argv tf_bin))"
      and tr2: "tr2 = tr1 @ [Subprocess (init_argv tf_bin) (terraform_dir root_dir) (tf_env sys pub_key)]"
      and app: "apply_rc = fst (subprocess sys tr2 (apply_argv tf_bin auto_approve))"
      and failed: "init_rc \<noteq> 0 \<or> apply_rc \<noteq> 0"
  shows "provision_and_deploy sys root_dir spec auto_approve terraform_bin priv_key pub_key tr1 =
           (if init_rc \<noteq> 0 then (Inl (CalledProcessError init_rc (init_argv tf_bin)), tr2)
            else (Inr apply_rc,
                  tr2 @ [Subprocess (apply_argv tf_bin auto_approve) (terraform_dir root_dir)
                           (tf_env sys pub_key)]))"
  using failed
  by (simp add: provision_and_deploy_def tool Let_def bind_def run_tool_def raise_def return_def
      init [symmetric] tr2 [symmetric] app [symmetric])

lemma demo_load:
  "load_new_spec (demo_system plan_json i a) ''/srv/shop/cloudhand/plan-1.json'' = Inr demo_spec"
  by (simp add: load_new_spec_def demo_system_def plan_json_def and_then_def demo_validate_def
      demo_spec_def)

lemma demo_env: "tf_env (demo_system p i a) pub = [(''TF_VAR_ssh_public_key'', pub)]"
  by (simp add: tf_env_def demo_system_def truthy_def)

lemma demo_tool_failure:
  assumes "i \<noteq> 0 \<or> a \<noteq> 0"
  shows "provision_and_deploy (demo_system p i a) ''/srv/shop'' spec True ''terraform''
           ''PRIVATE KEY'' ''ssh-rsa AAAA'' tr1 =
         (if i \<noteq> 0
          then (Inl (CalledProcessError i [''/usr/bin/terraform'', ''init'', ''-input=false'', ''-upgrade'']),
                tr1 @ [Subprocess [''/usr/bin/terraform'', ''init'', ''-input=false'', ''-upgrade'']
                         ''/srv/shop/cloudhand/terraform'' [(''TF_VAR_ssh_public_key'', ''ssh-rsa AAAA'')]])
          else (Inr a,
                tr1 @ [Subprocess [''/usr/bin/terraform'', ''init'', ''-input=false'', ''-upgrade'']
                         ''/srv/shop/cloudhand/terraform'' [(''TF_VAR_ssh_public_key'', ''ssh-rsa AAAA'')],
                       Subprocess [''/usr/bin/terraform'', ''apply'', ''-auto-approve'']
                         ''/srv/shop/cloudhand/terraform'' [(''TF_VAR_ssh_public_key'', ''ssh-rsa AAAA'')]]))"
proof -
  have w: "which (demo_system p i a) ''terraform'' = Some ''/usr/bin/terraform''"
    by (simp add: demo_system_def)
  have i: "i = fst (subprocess (demo_system p i a) tr1 (init_argv ''/usr/bin/terraform''))"
    by (simp add: demo_system_def init_argv_def)
  have a: "a = fst (subprocess (demo_system p i a)
             (tr1 @ [Subprocess (init_argv ''/usr/bin/terraform'') (terraform_dir ''/srv/shop'')
                       (tf_env (demo_system p i a) ''ssh-rsa AAAA'')])
             (apply_argv ''/usr/bin/terraform'' True))"
    by (simp add: demo_system_def apply_argv_def)
  from provision_tool_failure [OF w i refl a assms, of spec "''PRIVATE KEY''"]
  show ?thesis
    by (simp add: demo_env init_argv_def apply_argv_def terraform_dir_def cloudhand_dir_def)
qed

text \<open>
  C3.  The claim says that a non-zero exit code of the provisioning tool's init step or
  of its apply step aborts the remaining steps and is returned unchanged.  The code runs
  init with \<open>check=True\<close>, so a non-zero exit code there raises
  \<open>CalledProcessError\<close>; only the code of the apply step is returned.  As amended: when
  init exits non-zero, \<open>apply_plan\<close> raises \<open>CalledProcessError\<close> carrying that code
  and the init command is the last effect; when init succeeds and apply exits non-zero,
  \<open>apply_plan\<close> returns that code unchanged and the apply command is the last effect.
  In both cases no outputs are read and no workload is deployed.
\<close>

theorem apply_plan_tool_failure:
  assumes spec: "load_new_spec sys plan_path = Inr spec"
      and prov: "provider spec = ''hetzner''"
      and tr1: "tr1 = prepared sys root_dir spec project_id tr"
      and key: "project_ssh_key sys (butlast tr1) project_id = Inr (priv_key, pub_key)"
      and tool: "which sys terraform_bin = Some tf_bin"
      and init: "init_rc = fst (subprocess sys tr1 (init_argv tf_bin))"
      and tr2: "tr2 = tr1 @ [Subprocess (init_argv tf_bin) (terraform_dir root_dir) (tf_env sys pub_key)]"
      and app: "apply_rc = fst (subprocess sys tr2 (apply_argv tf_bin auto_approve))"
      and failed: "init_rc \<noteq> 0 \<or> apply_rc \<noteq> 0"
  shows "apply_plan sys root_dir plan_path auto_approve terraform_bin project_id workspace_id tr =
           (if init_rc \<noteq> 0 then (Inl (CalledProcessError init_rc (init_argv tf_bin)), tr2)
            else (Inr apply_rc,
                  tr2 @ [Subprocess (apply_argv tf_bin auto_approve) (terraform_dir root_dir)
                           (tf_env sys pub_key)]))"
proof -
  have "apply_plan sys root_dir plan_path auto_approve terraform_bin project_id workspace_id tr =
          provision_and_deploy sys root_dir spec auto_approve terraform_bin priv_key pub_key tr1"
    unfolding tr1 using spec prov key [unfolded tr1] by (rule apply_plan_prepared)
  also have "\<dots> = (if init_rc \<noteq> 0 then (Inl (CalledProcessError init_rc (init_argv tf_bin)), tr2)
            else (Inr apply_rc,
                  tr2 @ [Subprocess (apply_argv tf_bin auto_approve) (terraform_dir root_dir)
                           (tf_env sys pub_key)]))"
    using tool init tr2 app failed by (rule provision_tool_failure)
  finally show ?thesis .
qed

theorem apply_plan_tool_failure_witness:
  "apply_plan (demo_system plan_json 0 2) ''/srv/shop'' ''/srv/shop/cloudhand/plan-1.json'' True
       ''terraform'' ''default'' ''default'' [] =
     (Inr 2,
      prepared (demo_system plan_json 0 2) ''/srv/shop'' demo_spec ''default'' [] @
      [Subprocess [''/usr/bin/terraform'', ''init'', ''-input=false'', ''-upgrade'']
         ''/srv/shop/cloudhand/terraform'' [(''TF_VAR_ssh_public_key'', ''ssh-rsa AAAA'')],
       Subprocess [''/usr/bin/terraform'', ''apply'', ''-auto-approve'']
         ''/srv/shop/cloudhand/terraform'' [(''TF_VAR_ssh_public_key'', ''ssh-rsa AAAA'')]]) \<and>
   apply_plan (demo_system plan_json 3 0) ''/srv/shop'' ''/srv/shop/cloudhand/plan-1.json'' True
       ''terraform'' ''default'' ''default'' [] =
     (Inl (CalledProcessError 3 [''/usr/bin/terraform'', ''init'', ''-input=false'', ''-upgrade'']),
      prepared (demo_system plan_json 3 0) ''/srv/shop'' demo_spec ''default'' [] @
      [Subprocess [''/usr/bin/terraform'', ''init'', ''-input=false'', ''-upgrade'']
         ''/srv/shop/cloudhand/terraform'' [(''TF_VAR_ssh_public_key'', ''ssh-rsa AAAA'')]])"
proof -
  have run: "apply_plan (demo_system plan_json i a) ''/srv/shop'' ''/srv/shop/cloudhand/plan-1.json'' True
       ''terraform'' ''default'' ''default'' [] =
     (if i \<noteq> 0
      then (Inl (CalledProcessError i (init_argv ''/usr/bin/terraform'')),
            prepared (demo_system plan_json i a) ''/srv/shop'' demo_spec ''default'' [] @
            [Subprocess (init_argv ''/usr/bin/terraform'') (terraform_dir ''/srv/shop'')
               (tf_env (demo_system plan_json i a) ''ssh-rsa AAAA'')])
      else (Inr a,
            (prepared (demo_system plan_json i a) ''/srv/shop'' demo_spec ''default'' [] @
             [Subprocess (init_argv ''/usr/bin/terraform'') (terraform_dir ''/srv/shop'')
               (tf_env (demo_system plan_json i a) ''ssh-rsa AAAA'')]) @
            [Subprocess (apply_argv ''/usr/bin/terraform'' True) (terraform_dir ''/srv/shop'')
               (tf_env (demo_system plan_json i a) ''ssh-rsa AAAA'')]))"
    if failed: "i \<noteq> 0 \<or> a \<noteq> 0" for i a
  proof (rule apply_plan_tool_failure [OF demo_load _ refl _ _ _ refl _ failed])
    show "provider demo_spec = ''hetzner''" by (simp add: demo_spec_def)
    show "project_ssh_key (demo_system plan_json i a)
            (butlast (prepared (demo_system plan_json i a) ''/srv/shop'' demo_spec ''default'' []))
            ''default'' = Inr (''PRIVATE KEY'', ''ssh-rsa AAAA'')"
      by (simp add: demo_system_def)
    show "which (demo_system plan_json i a) ''terraform'' = Some ''/usr/bin/terraform''"
      by (simp add: demo_system_def)
    show "i = fst (subprocess (demo_system plan_json i a)
                (prepared (demo_system plan_json i a) ''/srv/shop'' demo_spec ''default'' [])
                (init_argv ''/usr/bin/terraform''))"
      by (simp add: demo_system_def init_argv_def)
    show "a = fst (subprocess (demo_system plan_json i a)
                (prepared (demo_system plan_json i a) ''/srv/shop'' demo_spec ''default'' [] @
                 [Subprocess (init_argv ''/usr/bin/terraform'') (terraform_dir ''/srv/shop'')
                    (tf_env (demo_system plan_json i a) ''ssh-rsa AAAA'')])
                (apply_argv ''/usr/bin/terraform'' True))"
      by (simp add: demo_system_def apply_argv_def)
  qed
  from run [of 0 2] run [of 3 0] show ?thesis
    by (simp add: demo_env init_argv_def apply_argv_def terraform_dir_def cloudhand_dir_def)
qed

text \<open>With init exiting 1, the result is the raised \<open>CalledProcessError\<close>, not the code 1.\<close>

theorem apply_plan_init_failure_counterexample:
  "fst (apply_plan (demo_system plan_json 1 0) ''/srv/shop'' ''/srv/shop/cloudhand/plan-1.json'' True
          ''terraform'' ''default'' ''default'' []) =
     Inl (CalledProcessError 1 [''/usr/bin/terraform'', ''init'', ''-input=false'', ''-upgrade'']) \<and>
   fst (apply_plan (demo_system plan_json 1 0) ''/srv/shop'' ''/srv/shop/cloudhand/plan-1.json'' True
          ''terraform'' ''default'' ''default'' []) \<noteq> Inr 1"
proof -
  have p: "provider demo_spec = ''hetzner''" by (simp add: demo_spec_def)
  have k: "project_ssh_key (demo_system plan_json 1 0)
            (butlast (prepared (demo_system plan_json 1 0) ''/srv/shop'' demo_spec ''default'' []))
            ''default'' = Inr (''PRIVATE KEY'', ''ssh-rsa AAAA'')"
    by (simp add: demo_system_def)
  have "apply_plan (demo_system plan_json 1 0) ''/srv/shop'' ''/srv/shop/cloudhand/plan-1.json'' True
          ''terraform'' ''default'' ''default'' [] =
        provision_and_deploy (demo_system plan_json 1 0) ''/srv/shop'' demo_spec True ''terraform''
          ''PRIVATE KEY'' ''ssh-rsa AAAA''
          (prepared (demo_system plan_json 1 0) ''/srv/shop'' demo_spec ''default'' [])"
    using demo_load p k by (rule apply_plan_prepared)
  then show ?thesis
    by (simp add: demo_tool_failure)
qed





end
